theory Spec2Isabelle
  imports Complex_Main "HOL-Library.Sublist"
begin

section \<open>Python strings\<close>

text \<open>
  A Python \<open>str\<close> is modelled by its UTF-8 encoding, one \<^typ>\<open>char\<close> per byte. The
  patterns the program searches for are ASCII and a white-space code point is its byte
  sequence, so prefix tests, replacement and stripping act on the bytes as they act on
  the code points.
\<close>

text \<open>\<open>s.startswith(p)\<close>\<close>

fun startswith :: "string \<Rightarrow> string \<Rightarrow> bool" where
  "startswith s [] = True"
| "startswith [] (p # ps) = False"
| "startswith (c # s) (p # ps) = (c = p \<and> startswith s ps)"

text \<open>
  \<open>s.replace(old, new)\<close>: the occurrences of \<open>old\<close> are found from left to right and do
  not overlap; with an empty \<open>old\<close>, \<open>new\<close> is put before every character and at the end.
\<close>

fun replace :: "string \<Rightarrow> string \<Rightarrow> string \<Rightarrow> string" where
  "replace [] old new = (if old = [] then new else [])"
| "replace (c # s) old new =
     (if old = [] then new @ c # replace s old new
      else if startswith (c # s) old then new @ replace (drop (length old) (c # s)) old new
      else c # replace s old new)"

text \<open>\<open>s.strip(chars)\<close> removes the leading and the trailing characters that occur in \<open>chars\<close>.\<close>

fun lstrip_chars :: "string \<Rightarrow> string \<Rightarrow> string" where
  "lstrip_chars [] chars = []"
| "lstrip_chars (c # s) chars = (if c \<in> set chars then lstrip_chars s chars else c # s)"

definition strip_chars :: "string \<Rightarrow> string \<Rightarrow> string" where
  "strip_chars s chars = rev (lstrip_chars (rev (lstrip_chars s chars)) chars)"

text \<open>
  \<open>s.strip()\<close> removes leading and trailing white space. These are the code points for
  which \<open>str.isspace\<close> holds, in UTF-8: the ASCII ones, U+0085, U+00A0, U+1680,
  U+2000 to U+200A, U+2028, U+2029, U+202F, U+205F and U+3000.
\<close>

definition whitespace :: "string list" where
  "whitespace =
     [[CHR 0x09], [CHR 0x0A], [CHR 0x0B], [CHR 0x0C], [CHR 0x0D],
      [CHR 0x1C], [CHR 0x1D], [CHR 0x1E], [CHR 0x1F], [CHR 0x20],
      [CHR 0xC2, CHR 0x85], [CHR 0xC2, CHR 0xA0], [CHR 0xE1, CHR 0x9A, CHR 0x80],
      [CHR 0xE2, CHR 0x80, CHR 0x80], [CHR 0xE2, CHR 0x80, CHR 0x81],
      [CHR 0xE2, CHR 0x80, CHR 0x82], [CHR 0xE2, CHR 0x80, CHR 0x83],
      [CHR 0xE2, CHR 0x80, CHR 0x84], [CHR 0xE2, CHR 0x80, CHR 0x85],
      [CHR 0xE2, CHR 0x80, CHR 0x86], [CHR 0xE2, CHR 0x80, CHR 0x87],
      [CHR 0xE2, CHR 0x80, CHR 0x88], [CHR 0xE2, CHR 0x80, CHR 0x89],
      [CHR 0xE2, CHR 0x80, CHR 0x8A], [CHR 0xE2, CHR 0x80, CHR 0xA8],
      [CHR 0xE2, CHR 0x80, CHR 0xA9], [CHR 0xE2, CHR 0x80, CHR 0xAF],
      [CHR 0xE2, CHR 0x81, CHR 0x9F], [CHR 0xE3, CHR 0x80, CHR 0x80]]"

function lstrip :: "string list \<Rightarrow> string \<Rightarrow> string" where
  "lstrip pats s =
     (case find (\<lambda>p. p \<noteq> [] \<and> startswith s p) pats of
        None \<Rightarrow> s
      | Some p \<Rightarrow> lstrip pats (drop (length p) s))"
  by pat_completeness auto
termination
proof (relation "measure (\<lambda>(pats, s). length s)")
  show "wf (measure (\<lambda>(pats, s). length s))" by simp
next
  fix pats s p
  assume "find (\<lambda>p. p \<noteq> [] \<and> startswith s p) pats = Some p"
  then have "p \<noteq> [] \<and> startswith s p" by (auto simp: find_Some_iff)
  then have "p \<noteq> []" "s \<noteq> []" by (cases s; cases p; auto)+
  thus "((pats, drop (length p) s), pats, s) \<in> measure (\<lambda>(pats, s). length s)" by (cases s; cases p; auto)
qed

declare lstrip.simps [simp del]

definition strip :: "string \<Rightarrow> string" where
  "strip s = rev (lstrip (map rev whitespace) (rev (lstrip whitespace s)))"


section \<open>Python values, exceptions and dictionaries\<close>

text \<open>
  Table cells, metadata values and lookup keys are strings, integers or the missing-value
  marker of pandas (\<open>NaN\<close>). Other floats are left out: no operation of the program
  computes with them. The message an exception carries is kept without the position
  suffix that \<open>json\<close> appends.
\<close>

datatype pyval = PStr string | PInt int | PNaN

datatype exn =
    OSError string
  | ParserError string
  | KeyError string
  | IndexError string
  | TypeError string
  | JSONDecodeError string
  | RecursionError
  | ValueError string
  | APIError string

type_synonym dict = "(string \<times> pyval) list"

text \<open>\<open>d[key]\<close> raises \<open>KeyError\<close> on a missing key; \<open>d.get(key, default)\<close> does not.\<close>

definition dict_getitem :: "(string \<times> 'v) list \<Rightarrow> string \<Rightarrow> exn + 'v" where
  "dict_getitem d key = (case map_of d key of None \<Rightarrow> Inl (KeyError key) | Some v \<Rightarrow> Inr v)"

definition dict_get :: "(string \<times> 'v) list \<Rightarrow> string \<Rightarrow> 'v \<Rightarrow> 'v" where
  "dict_get d key dflt = (case map_of d key of None \<Rightarrow> dflt | Some v \<Rightarrow> v)"

definition bind_exn :: "exn + 'a \<Rightarrow> ('a \<Rightarrow> exn + 'b) \<Rightarrow> exn + 'b" where
  "bind_exn r f = (case r of Inl e \<Rightarrow> Inl e | Inr x \<Rightarrow> f x)"

subsection \<open>Formatting, as an f-string does it\<close>

definition digit_char :: "nat \<Rightarrow> char" where
  "digit_char d = char_of (48 + d)"

fun str_of_nat :: "nat \<Rightarrow> string" where
  "str_of_nat n = (if n < 10 then [digit_char n] else str_of_nat (n div 10) @ [digit_char (n mod 10)])"

declare str_of_nat.simps [simp del]

definition str_of_int :: "int \<Rightarrow> string" where
  "str_of_int i = (if i < 0 then CHR ''-'' # str_of_nat (nat (- i)) else str_of_nat (nat i))"

fun py_str :: "pyval \<Rightarrow> string" where
  "py_str (PStr s) = s"
| "py_str (PInt i) = str_of_int i"
| "py_str PNaN = ''nan''"

fun exn_str :: "exn \<Rightarrow> string" where
  "exn_str (OSError m) = m"
| "exn_str (ParserError m) = m"
| "exn_str (KeyError k) = [CHR 0x27] @ k @ [CHR 0x27]"
| "exn_str (IndexError m) = m"
| "exn_str (TypeError m) = m"
| "exn_str (JSONDecodeError m) = m"
| "exn_str RecursionError = ''maximum recursion depth exceeded''"
| "exn_str (ValueError m) = m"
| "exn_str (APIError m) = m"

section \<open>\<open>json.loads\<close>\<close>

text \<open>
  The value \<open>json.loads\<close> returns. A number keeps its literal text (the program never
  computes with it); an object keeps its members in the order of the text, and a lookup
  takes the last member with the key, as the \<open>dict\<close> built from them does.
\<close>

datatype json =
    JObject "(string \<times> json) list"
  | JArray "json list"
  | JString string
  | JNumber string
  | JBool bool
  | JNull

text \<open>
  The decoder follows the scanner of CPython: white space is space, tab, line feed and
  carriage return; a string may not hold a raw control character; four-digit hexadecimal
  escapes are decoded, a surrogate pair to one code point; \<open>NaN\<close>, \<open>Infinity\<close> and
  \<open>-Infinity\<close> are accepted. Each function returns the value read and the rest of the
  text.
\<close>

abbreviation dquote :: char where "dquote \<equiv> CHR 0x22"
abbreviation backslash :: char where "backslash \<equiv> CHR 0x5C"

definition json_ws :: "char \<Rightarrow> bool" where
  "json_ws c = (c = CHR '' '' \<or> c = CHR 0x09 \<or> c = CHR 0x0A \<or> c = CHR 0x0D)"

definition skip_ws :: "string \<Rightarrow> string" where
  "skip_ws s = dropWhile json_ws s"

definition is_digit :: "char \<Rightarrow> bool" where
  "is_digit c = (48 \<le> (of_char c :: nat) \<and> (of_char c :: nat) \<le> 57)"

definition hex_digit :: "char \<Rightarrow> nat option" where
  "hex_digit c =
     (let n = (of_char c :: nat) in
      if 48 \<le> n \<and> n \<le> 57 then Some (n - 48)
      else if 97 \<le> n \<and> n \<le> 102 then Some (n - 87)
      else if 65 \<le> n \<and> n \<le> 70 then Some (n - 55)
      else None)"

definition hex4 :: "char \<Rightarrow> char \<Rightarrow> char \<Rightarrow> char \<Rightarrow> nat option" where
  "hex4 a b c d =
     (case (hex_digit a, hex_digit b, hex_digit c, hex_digit d) of
        (Some x, Some y, Some z, Some u) \<Rightarrow> Some (((x * 16 + y) * 16 + z) * 16 + u)
      | _ \<Rightarrow> None)"

definition utf8_encode :: "nat \<Rightarrow> string" where
  "utf8_encode cp =
     (if cp < 0x80 then [char_of cp]
      else if cp < 0x800 then [char_of (0xC0 + cp div 64), char_of (0x80 + cp mod 64)]
      else if cp < 0x10000 then
        [char_of (0xE0 + cp div 4096), char_of (0x80 + (cp div 64) mod 64), char_of (0x80 + cp mod 64)]
      else
        [char_of (0xF0 + cp div 262144), char_of (0x80 + (cp div 4096) mod 64),
         char_of (0x80 + (cp div 64) mod 64), char_of (0x80 + cp mod 64)])"

definition simple_escape :: "char \<Rightarrow> char option" where
  "simple_escape c =
     (if c = dquote \<or> c = backslash \<or> c = CHR ''/'' then Some c
      else if c = CHR ''b'' then Some (CHR 0x08)
      else if c = CHR ''f'' then Some (CHR 0x0C)
      else if c = CHR ''n'' then Some (CHR 0x0A)
      else if c = CHR ''r'' then Some (CHR 0x0D)
      else if c = CHR ''t'' then Some (CHR 0x09)
      else None)"

definition emit :: "string \<Rightarrow> exn + string \<times> string \<Rightarrow> exn + string \<times> string" where
  "emit cs r = bind_exn r (\<lambda>(str, rest). Inr (cs @ str, rest))"

fun scanstring :: "string \<Rightarrow> exn + string \<times> string" where
  "scanstring [] = Inl (JSONDecodeError ''Unterminated string starting at'')"
| "scanstring (c # s) =
     (if c = dquote then Inr ([], s)
      else if c = backslash then
        (case s of
           [] \<Rightarrow> Inl (JSONDecodeError ''Unterminated string starting at'')
         | e # s1 \<Rightarrow>
             if e \<noteq> CHR ''u'' then
               (case simple_escape e of
                  None \<Rightarrow> Inl (JSONDecodeError (''Invalid '' @ [backslash] @ ''escape''))
                | Some ch \<Rightarrow> emit [ch] (scanstring s1))
             else
               (case s1 of
                  h1 # h2 # h3 # h4 # s2 \<Rightarrow>
                    (case hex4 h1 h2 h3 h4 of
                       None \<Rightarrow> Inl (JSONDecodeError (''Invalid '' @ [backslash] @ ''uXXXX escape''))
                     | Some uni \<Rightarrow>
                         if 0xD800 \<le> uni \<and> uni \<le> 0xDBFF then
                           (case s2 of
                              b # u # g1 # g2 # g3 # g4 # s3 \<Rightarrow>
                                if b = backslash \<and> u = CHR ''u'' then
                                  (case hex4 g1 g2 g3 g4 of
                                     None \<Rightarrow> Inl (JSONDecodeError (''Invalid '' @ [backslash] @ ''uXXXX escape''))
                                   | Some uni2 \<Rightarrow>
                                       if 0xDC00 \<le> uni2 \<and> uni2 \<le> 0xDFFF
                                       then emit (utf8_encode (0x10000 + (uni - 0xD800) * 0x400 + (uni2 - 0xDC00)))
                                              (scanstring s3)
                                       else emit (utf8_encode uni) (scanstring s2))
                                else emit (utf8_encode uni) (scanstring s2)
                            | _ \<Rightarrow> emit (utf8_encode uni) (scanstring s2))
                         else emit (utf8_encode uni) (scanstring s2))
                | _ \<Rightarrow> Inl (JSONDecodeError (''Invalid '' @ [backslash] @ ''uXXXX escape''))))
      else if (of_char c :: nat) \<le> 0x1F then Inl (JSONDecodeError ''Invalid control character at'')
      else emit [c] (scanstring s))"

definition frac_part :: "string \<Rightarrow> string \<times> string" where
  "frac_part s =
     (case s of
        d # e # r \<Rightarrow>
          if d = CHR ''.'' \<and> is_digit e
          then (d # takeWhile is_digit (e # r), dropWhile is_digit (e # r))
          else ([], s)
      | _ \<Rightarrow> ([], s))"

definition exp_part :: "string \<Rightarrow> string \<times> string" where
  "exp_part s =
     (case s of
        e # r \<Rightarrow>
          if e = CHR ''e'' \<or> e = CHR ''E'' then
            (let (sgn, r1) = (case r of
                                g # r' \<Rightarrow> if g = CHR ''-'' \<or> g = CHR ''+'' then ([g], r') else ([], r)
                              | [] \<Rightarrow> ([], r))
             in if takeWhile is_digit r1 = [] then ([], s)
                else (e # sgn @ takeWhile is_digit r1, dropWhile is_digit r1))
          else ([], s)
      | [] \<Rightarrow> ([], s))"

text \<open>
  An integer literal is converted by \<open>int\<close>, which refuses more digits than the
  interpreter allows (\<open>sys.get_int_max_str_digits()\<close>, 4300 unless changed, 0 for no
  limit; literals of up to 640 digits are never refused). A literal with a fraction or an
  exponent is converted by \<open>float\<close>, which has no such limit.
\<close>

definition int_of_literal :: "nat \<Rightarrow> string \<Rightarrow> string \<Rightarrow> exn + json" where
  "int_of_literal digits sign ip =
     (if 640 < length ip \<and> 0 < digits \<and> digits < length ip
      then Inl (ValueError (''Exceeds the limit ('' @ str_of_nat digits
             @ '' digits) for integer string conversion: value has '' @ str_of_nat (length ip)
             @ '' digits; use sys.set_int_max_str_digits() to increase the limit''))
      else Inr (JNumber (sign @ ip)))"

definition match_number :: "nat \<Rightarrow> string \<Rightarrow> exn + json \<times> string" where
  "match_number digits s =
     (let (sgn, s1) = (case s of
                         c # r \<Rightarrow> if c = CHR ''-'' then ([c], r) else ([], s)
                       | [] \<Rightarrow> ([], s))
      in case s1 of
           [] \<Rightarrow> Inl (JSONDecodeError ''Expecting value'')
         | c # r \<Rightarrow>
             if is_digit c then
               (let (ip, r1) = (if c = CHR ''0'' then ([c], r)
                                else (c # takeWhile is_digit r, dropWhile is_digit r));
                    (fp, r2) = frac_part r1;
                    (ep, r3) = exp_part r2
                in if fp = [] \<and> ep = []
                   then bind_exn (int_of_literal digits sgn ip) (\<lambda>n. Inr (n, r3))
                   else Inr (JNumber (sgn @ ip @ fp @ ep), r3))
             else Inl (JSONDecodeError ''Expecting value''))"

text \<open>
  \<open>depth\<close> is how many objects and arrays may still be nested before the interpreter
  raises \<open>RecursionError\<close>, \<open>digits\<close> the limit on the digits of an integer literal. \<open>fuel\<close> bounds the chain of calls of the model itself;
  \<open>json_loads\<close> supplies \<open>2 * length s + 2\<close>, which is shown below to be enough.
\<close>

fun scan_once :: "nat \<Rightarrow> nat \<Rightarrow> nat \<Rightarrow> string \<Rightarrow> exn + json \<times> string"
  and parse_object :: "nat \<Rightarrow> nat \<Rightarrow> nat \<Rightarrow> (string \<times> json) list \<Rightarrow> string \<Rightarrow> exn + json \<times> string"
  and parse_array :: "nat \<Rightarrow> nat \<Rightarrow> nat \<Rightarrow> json list \<Rightarrow> string \<Rightarrow> exn + json \<times> string"
where
  "scan_once 0 depth digits s = Inl RecursionError"
| "scan_once (Suc fuel) depth digits s =
     (if s = [] then Inl (JSONDecodeError ''Expecting value'')
      else if hd s = dquote then
        bind_exn (scanstring (tl s)) (\<lambda>(str, rest). Inr (JString str, rest))
      else if hd s = CHR ''{'' then
        (case depth of
           0 \<Rightarrow> Inl RecursionError
         | Suc d \<Rightarrow>
             if startswith (skip_ws (tl s)) ''}'' then Inr (JObject [], tl (skip_ws (tl s)))
             else parse_object fuel d digits [] (skip_ws (tl s)))
      else if hd s = CHR ''['' then
        (case depth of
           0 \<Rightarrow> Inl RecursionError
         | Suc d \<Rightarrow>
             if startswith (skip_ws (tl s)) '']'' then Inr (JArray [], tl (skip_ws (tl s)))
             else parse_array fuel d digits [] (skip_ws (tl s)))
      else if startswith s ''null'' then Inr (JNull, drop 4 s)
      else if startswith s ''true'' then Inr (JBool True, drop 4 s)
      else if startswith s ''false'' then Inr (JBool False, drop 5 s)
      else if startswith s ''NaN'' then Inr (JNumber ''NaN'', drop 3 s)
      else if startswith s ''Infinity'' then Inr (JNumber ''Infinity'', drop 8 s)
      else if startswith s ''-Infinity'' then Inr (JNumber ''-Infinity'', drop 9 s)
      else match_number digits s)"
| "parse_object 0 depth digits pairs s = Inl RecursionError"
| "parse_object (Suc fuel) depth digits pairs s =
     (if \<not> startswith s [dquote]
      then Inl (JSONDecodeError ''Expecting property name enclosed in double quotes'')
      else
        bind_exn (scanstring (tl s)) (\<lambda>(key, r1).
          if \<not> startswith (skip_ws r1) '':'' then Inl (JSONDecodeError (''Expecting '' @ [CHR 0x27] @ '':'' @ [CHR 0x27] @ '' delimiter''))
          else
            bind_exn (scan_once fuel depth digits (skip_ws (tl (skip_ws r1)))) (\<lambda>(val, r2).
              if startswith (skip_ws r2) ''}''
              then Inr (JObject (pairs @ [(key, val)]), tl (skip_ws r2))
              else if \<not> startswith (skip_ws r2) '',''
              then Inl (JSONDecodeError (''Expecting '' @ [CHR 0x27] @ '','' @ [CHR 0x27] @ '' delimiter''))
              else parse_object fuel depth digits (pairs @ [(key, val)]) (skip_ws (tl (skip_ws r2))))))"
| "parse_array 0 depth digits vals s = Inl RecursionError"
| "parse_array (Suc fuel) depth digits vals s =
     bind_exn (scan_once fuel depth digits s) (\<lambda>(val, r1).
       if startswith (skip_ws r1) '']''
       then Inr (JArray (vals @ [val]), tl (skip_ws r1))
       else if \<not> startswith (skip_ws r1) '',''
       then Inl (JSONDecodeError (''Expecting '' @ [CHR 0x27] @ '','' @ [CHR 0x27] @ '' delimiter''))
       else parse_array fuel depth digits (vals @ [val]) (skip_ws (tl (skip_ws r1))))"

text \<open>
  \<open>json.loads(s)\<close>: a leading byte order mark is refused, white space around the value
  is skipped, anything else after the value is \<open>Extra data\<close>.
\<close>

definition json_loads :: "nat \<Rightarrow> nat \<Rightarrow> string \<Rightarrow> exn + json" where
  "json_loads limit digits s =
     (if startswith s [CHR 0xEF, CHR 0xBB, CHR 0xBF]
      then Inl (JSONDecodeError ''Unexpected UTF-8 BOM (decode using utf-8-sig)'')
      else
        bind_exn (scan_once (2 * length s + 2) limit digits (skip_ws s)) (\<lambda>(obj, rest).
          if skip_ws rest = [] then Inr obj else Inl (JSONDecodeError ''Extra data'')))"

text \<open>\<open>obj[key]\<close> with a string key: only a \<open>dict\<close> can be indexed by it.\<close>

fun json_getitem :: "json \<Rightarrow> string \<Rightarrow> exn + json" where
  "json_getitem (JObject pairs) key =
     (case map_of (rev pairs) key of None \<Rightarrow> Inl (KeyError key) | Some v \<Rightarrow> Inr v)"
| "json_getitem (JArray vs) key = Inl (TypeError ''list indices must be integers or slices, not str'')"
| "json_getitem (JString s) key = Inl (TypeError ''string indices must be integers'')"
| "json_getitem (JNumber n) key = Inl (TypeError ''object is not subscriptable'')"
| "json_getitem (JBool b) key = Inl (TypeError ''object is not subscriptable'')"
| "json_getitem JNull key = Inl (TypeError ''object is not subscriptable'')"

section \<open>The two lookup tables\<close>

text \<open>
  A \<open>DataFrame\<close> as \<open>pd.read_csv\<close> returns it: the column labels (unique, since
  \<open>read_csv\<close> renames duplicates) and the rows, each row a \<open>Series\<close> from column label to
  cell.
\<close>

type_synonym series = "(string \<times> pyval) list"

record dataframe =
  df_columns :: "string list"
  df_rows :: "series list"

text \<open>
  \<open>column == value\<close>, cell by cell: \<open>NaN\<close> equals nothing, a string never equals an
  integer.
\<close>

fun py_eq :: "pyval \<Rightarrow> pyval \<Rightarrow> bool" where
  "py_eq PNaN _ = False"
| "py_eq _ PNaN = False"
| "py_eq a b = (a = b)"

definition cell_eq :: "series \<Rightarrow> string \<Rightarrow> pyval \<Rightarrow> bool" where
  "cell_eq row col v = (case map_of row col of None \<Rightarrow> False | Some c \<Rightarrow> py_eq c v)"

text \<open>\<open>df[df[col] == v]\<close>: \<open>df[col]\<close> raises \<open>KeyError\<close> when the frame has no such column.\<close>

definition df_select_eq :: "dataframe \<Rightarrow> string \<Rightarrow> pyval \<Rightarrow> exn + dataframe" where
  "df_select_eq df col v =
     (if col \<in> set (df_columns df)
      then Inr (df\<lparr>df_rows := filter (\<lambda>row. cell_eq row col v) (df_rows df)\<rparr>)
      else Inl (KeyError col))"

definition df_empty :: "dataframe \<Rightarrow> bool" where
  "df_empty df = (df_columns df = [] \<or> df_rows df = [])"

definition df_iloc0 :: "dataframe \<Rightarrow> exn + series" where
  "df_iloc0 df =
     (case df_rows df of
        [] \<Rightarrow> Inl (IndexError ''single positional indexer is out-of-bounds'')
      | row # _ \<Rightarrow> Inr row)"

section \<open>Documents, requests and the world outside the program\<close>

record document =
  page_content :: string
  metadata :: dict

record llm_request =
  model :: string
  input :: string
  temperature :: int

type_synonym hits = "(document \<times> real) list"

text \<open>
  Everything the program reaches outside itself: the file system as \<open>pd.read_csv\<close> sees
  it, the language-model endpoint (\<open>client.responses.create\<close>, giving the
  \<open>output_text\<close> of the response), the persisted vector store with its
  \<open>similarity_search_with_score\<close>, the nesting the interpreter still allows, its limit on
  the digits of an integer, and standard output. \<open>llm_requests\<close> records the requests sent to the endpoint, oldest first.
\<close>

record world =
  read_csv :: "string \<Rightarrow> exn + dataframe"
  responses_create :: "llm_request \<Rightarrow> exn + string"
  chroma :: "exn + (json \<Rightarrow> nat \<Rightarrow> exn + hits)"
  recursion_limit :: nat
  int_max_str_digits :: nat
  stdout :: "string list"
  llm_requests :: "llm_request list"

definition print :: "string \<Rightarrow> world \<Rightarrow> world" where
  "print line w = w\<lparr>stdout := stdout w @ [line]\<rparr>"

section \<open>\<open>get_podcast_details\<close> and \<open>get_podcast_stats\<close>\<close>

definition details_found :: "series \<Rightarrow> dict" where
  "details_found row =
     [(''name'', dict_get row ''name'' (PStr ''Unknown Podcast'')),
      (''image'', dict_get row ''image'' (PStr [])),
      (''summary'', dict_get row ''summary'' (PStr [])),
      (''categories'', dict_get row ''categories'' (PStr [])),
      (''youtube_id'', dict_get row ''youtubeID'' (PStr [])),
      (''spotify_id'', dict_get row ''spotifyId'' (PStr [])),
      (''website_name'', dict_get row ''websiteName'' (PStr [])),
      (''rss_feed'', dict_get row ''rssFeed'' (PStr []))]"

definition details_placeholder :: "pyval \<Rightarrow> string \<Rightarrow> dict" where
  "details_placeholder client_id summary =
     [(''name'', PStr (''Podcast '' @ py_str client_id)),
      (''image'', PStr []),
      (''summary'', PStr summary),
      (''categories'', PStr []),
      (''youtube_id'', PStr []),
      (''spotify_id'', PStr []),
      (''website_name'', PStr []),
      (''rss_feed'', PStr [])]"

text \<open>The body of the \<open>try\<close> block; \<open>Inl\<close> is an exception raised inside it.\<close>

definition get_podcast_details_try :: "world \<Rightarrow> pyval \<Rightarrow> exn + dict" where
  "get_podcast_details_try w client_id =
     bind_exn (read_csv w ''0_pods.csv'') (\<lambda>pods_df.
     bind_exn (df_select_eq pods_df ''id'' client_id) (\<lambda>podcast_row.
       if \<not> df_empty podcast_row
       then bind_exn (df_iloc0 podcast_row) (\<lambda>row. Inr (details_found row))
       else Inr (details_placeholder client_id ''No details available'')))"

definition get_podcast_details :: "world \<Rightarrow> pyval \<Rightarrow> (exn + dict) \<times> world" where
  "get_podcast_details w client_id =
     (case get_podcast_details_try w client_id of
        Inr d \<Rightarrow> (Inr d, w)
      | Inl e \<Rightarrow>
          (Inr (details_placeholder client_id ''Error loading details''),
           print (''Error loading podcast details for '' @ py_str client_id @ '': '' @ exn_str e) w))"

definition stats_found :: "series \<Rightarrow> dict" where
  "stats_found row =
     [(''min_impressions'', dict_get row ''min_impressions'' (PInt 0)),
      (''max_impressions'', dict_get row ''max_impressions'' (PInt 0)),
      (''youtube_subscribers'', dict_get row ''youtube_subscribers'' (PInt 0)),
      (''instagram_followers'', dict_get row ''instagram_followers'' (PInt 0)),
      (''episode_avg_views'', dict_get row ''episode_avg_views'' (PInt 0)),
      (''estimated_ad_price'', dict_get row ''estimated_ad_price'' (PStr ''N/A''))]"

definition stats_placeholder :: dict where
  "stats_placeholder =
     [(''min_impressions'', PInt 0),
      (''max_impressions'', PInt 0),
      (''youtube_subscribers'', PInt 0),
      (''instagram_followers'', PInt 0),
      (''episode_avg_views'', PInt 0),
      (''estimated_ad_price'', PStr ''N/A'')]"

definition get_podcast_stats_try :: "world \<Rightarrow> pyval \<Rightarrow> exn + dict" where
  "get_podcast_stats_try w client_id =
     bind_exn (read_csv w ''pods_stats.csv'') (\<lambda>stats_df.
     bind_exn (df_select_eq stats_df ''clientId'' client_id) (\<lambda>stats_row.
       if \<not> df_empty stats_row
       then bind_exn (df_iloc0 stats_row) (\<lambda>row. Inr (stats_found row))
       else Inr stats_placeholder))"

definition get_podcast_stats :: "world \<Rightarrow> pyval \<Rightarrow> (exn + dict) \<times> world" where
  "get_podcast_stats w client_id =
     (case get_podcast_stats_try w client_id of
        Inr d \<Rightarrow> (Inr d, w)
      | Inl e \<Rightarrow>
          (Inr stats_placeholder,
           print (''Error loading podcast stats for '' @ py_str client_id @ '': '' @ exn_str e) w))"

section \<open>\<open>get_required_podcast_details_for_brand\<close>\<close>

text \<open>
  The lines of the f-string before the interpolated \<open>{brand_details}\<close>, as the literal
  denotes them: doubled braces are single braces, the doubled backslash is one.
\<close>

definition prompt_lines :: "string list" where
  \<open>prompt_lines =
     [
      ''You are an expert assistant helping brands find the most suitable podcasts to advertise on.'',
      [],
      ''---'',
      [],
      [CHR 0xF0, CHR 0x9F, CHR 0x8E, CHR 0xAF] @ '' Objective:'',
      ''Given a brand'' @ [CHR 0xE2, CHR 0x80, CHR 0x99] @ ''s product, goals, and target audience, generate a detailed profile of the *ideal podcast* where this brand should advertise to maximize relevance, engagement, and return on investment (ROI).'',
      [],
      ''This profile will be used to semantically match against real podcasts in a vector database, so your output must be **high-quality, structured, and JSON-parsable**.'',
      [],
      ''---'',
      [],
      [CHR 0xF0, CHR 0x9F, CHR 0xA7, CHR 0xA0] @ '' Instructions:'',
      ''- DO NOT include any actual podcast or brand names.'',
      ''- DO NOT describe what kind of podcast "would be ideal" '' @ [CHR 0xE2, CHR 0x80, CHR 0x94] @ '' instead, write as if the podcast already exists.'',
      ''- The podcast summary should be written in the **style of a real podcast description**, like those found on Spotify or Apple Podcasts.'',
      ''- Make the show feel real '' @ [CHR 0xE2, CHR 0x80, CHR 0x94] @ '' use first/third-person style, include tone, audience, and topics.'',
      ''- Use only the details provided in the brand input '' @ [CHR 0xE2, CHR 0x80, CHR 0x94] @ '' do not assume or hallucinate beyond that.'',
      ''- Carefully select podcast categories and stats that align with the brand'' @ [CHR 0x27] @ ''s size, audience, and goals.'',
      ''- The value of `"podcast_details_string"` must be a **single JSON-safe string**: all line breaks must be escaped as `'' @ [CHR 0x5C] @ ''n`, and all internal quotes must be escaped if needed.'',
      ''- Use double quotes `"` for all JSON keys and string values.'',
      ''- Return JSON only '' @ [CHR 0xE2, CHR 0x80, CHR 0x94] @ '' no markdown, no commentary, no code fences'',
      [],
      ''---'',
      [],
      [CHR 0xF0, CHR 0x9F, CHR 0x93, CHR 0xA6] @ '' Choose only from this list of valid podcast categories:'',
      ''['',
      ''    "technology",'',
      ''    "business",'',
      ''    "health&fitness",'',
      ''    "education",'',
      ''    "true_crime",'',
      ''    "news&politics",'',
      ''    "comedy",'',
      ''    "sports",'',
      ''    "kids&family",'',
      ''    "arts",'',
      ''    "society&culture",'',
      ''    "history",'',
      ''    "fiction",'',
      ''    "religion&spirituality",'',
      ''    "leisure",'',
      ''    "government",'',
      ''    "music",'',
      ''    "science",'',
      ''    "tv&film"'',
      '']'',
      [],
      ''---'',
      [],
      [CHR 0xF0, CHR 0x9F, CHR 0xA7, CHR 0xBE] @ '' Output Format (strictly follow this format):'',
      [],
      ''{'',
      ''  "podcast_details_string": "<natural language summary of ideal podcast '' @ [CHR 0xE2, CHR 0x80, CHR 0x93] @ '' audience, tone, topics>'',
      ''Main Category: <one from the list above>'',
      ''Subcategories: <comma-separated values from the list above>'',
      [],
      ''YouTube Subscribers: <integer>'',
      ''Instagram Followers: <integer>'',
      ''Average Episode Views: <integer>'',
      ''Impressions Range: <min>-<max>'',
      ''Estimated Ad Price for 30s: <integer>$'',
      ''Estimated Ad Price for 60s: <integer>$'',
      ''Episodes with Ads: <percentage>%'',
      ''Average Sponsor Length: <seconds>'',
      ''Ad Percentage Per Episode: <percentage>%'',
      ''Average Ads Per Episode: <float>'',
      ''Brand Repeat Rate: <percentage>%'',
      ''Top Past Sponsors: [<brand1>, <brand2>, ...]"'',
      ''}'',
      [],
      ''---'',
      [],
      [CHR 0xF0, CHR 0x9F, CHR 0x94, CHR 0x8D] @ '' Brand Details:''
     ]\<close>

text \<open>
  The prompt: the literal opens with a line break, every line ends with one, and the
  text of \<open>brand_details\<close> (what the f-string interpolates, \<open>str(brand_details)\<close>) is
  followed by the last one.
\<close>

definition prompt :: "string \<Rightarrow> string" where
  "prompt brand_details =
     [CHR 0x0A] @ concat (map (\<lambda>l. l @ [CHR 0x0A]) prompt_lines) @ brand_details @ [CHR 0x0A]"

text \<open>The category list of the source, lines 167 to 187, with its line breaks.\<close>

definition category_list :: string where
  \<open>category_list =
     ''['' @ [CHR 0x0A] @
     ''    "technology",'' @ [CHR 0x0A] @
     ''    "business",'' @ [CHR 0x0A] @
     ''    "health&fitness",'' @ [CHR 0x0A] @
     ''    "education",'' @ [CHR 0x0A] @
     ''    "true_crime",'' @ [CHR 0x0A] @
     ''    "news&politics",'' @ [CHR 0x0A] @
     ''    "comedy",'' @ [CHR 0x0A] @
     ''    "sports",'' @ [CHR 0x0A] @
     ''    "kids&family",'' @ [CHR 0x0A] @
     ''    "arts",'' @ [CHR 0x0A] @
     ''    "society&culture",'' @ [CHR 0x0A] @
     ''    "history",'' @ [CHR 0x0A] @
     ''    "fiction",'' @ [CHR 0x0A] @
     ''    "religion&spirituality",'' @ [CHR 0x0A] @
     ''    "leisure",'' @ [CHR 0x0A] @
     ''    "government",'' @ [CHR 0x0A] @
     ''    "music",'' @ [CHR 0x0A] @
     ''    "science",'' @ [CHR 0x0A] @
     ''    "tv&film"'' @ [CHR 0x0A] @
     '']''\<close>

text \<open>
  The value of \<open>raw_output\<close> that reaches \<open>json.loads\<close>, from the \<open>output_text\<close> of the
  response.
\<close>

definition raw_output :: "string \<Rightarrow> string" where
  "raw_output output_text =
     (let raw = strip output_text
      in if startswith raw ''```''
         then replace (replace (strip_chars raw ''`'') (''json'' @ [CHR 0x0A]) []) ''json'' []
         else raw)"

definition get_required_podcast_details_for_brand :: "world \<Rightarrow> string \<Rightarrow> (exn + json) \<times> world" where
  "get_required_podcast_details_for_brand w brand_details =
     (let request = \<lparr>model = ''gpt-4o'', input = prompt brand_details, temperature = 0\<rparr>;
          w1 = w\<lparr>llm_requests := llm_requests w @ [request]\<rparr>
      in case responses_create w request of
           Inl e \<Rightarrow> (Inl e, w1)
         | Inr output_text \<Rightarrow>
             (case bind_exn (json_loads (recursion_limit w) (int_max_str_digits w) (raw_output output_text))
                     (\<lambda>podcast_matching_string.
                        json_getitem podcast_matching_string ''podcast_details_string'') of
                Inr podcast_details_string \<Rightarrow> (Inr podcast_details_string, w1)
              | Inl e \<Rightarrow> (Inr (JString []), print (''Exception:  '' @ exn_str e) w1)))"

section \<open>\<open>get_enhanced_podcast_results\<close> and \<open>search_for_podcasts\<close>\<close>

text \<open>
  An enhanced result is a dictionary whose values are of four kinds: table and metadata
  values, the score, the page content, and the metadata dictionary itself.
\<close>

datatype field = Val pyval | Score real | Content string | Metadata dict

type_synonym enhanced_result = "(string \<times> field) list"

definition extract_pod_id :: "dict \<Rightarrow> pyval" where
  "extract_pod_id md =
     dict_get md ''pod_id'' (dict_get md ''clientId'' (dict_get md ''id'' (PStr ''unknown'')))"

definition enhanced_result_of ::
  "pyval \<Rightarrow> real \<Rightarrow> document \<Rightarrow> dict \<Rightarrow> dict \<Rightarrow> exn + enhanced_result" where
  "enhanced_result_of pod_id score doc podcast_details podcast_stats =
     bind_exn (dict_getitem podcast_details ''name'') (\<lambda>name.
     bind_exn (dict_getitem podcast_details ''image'') (\<lambda>image.
     bind_exn (dict_getitem podcast_details ''summary'') (\<lambda>summary.
     bind_exn (dict_getitem podcast_details ''categories'') (\<lambda>categories.
     bind_exn (dict_getitem podcast_details ''youtube_id'') (\<lambda>youtube_id.
     bind_exn (dict_getitem podcast_details ''spotify_id'') (\<lambda>spotify_id.
     bind_exn (dict_getitem podcast_details ''website_name'') (\<lambda>website_name.
     bind_exn (dict_getitem podcast_details ''rss_feed'') (\<lambda>rss_feed.
     bind_exn (dict_getitem podcast_stats ''min_impressions'') (\<lambda>min_impressions.
     bind_exn (dict_getitem podcast_stats ''max_impressions'') (\<lambda>max_impressions.
     bind_exn (dict_getitem podcast_stats ''youtube_subscribers'') (\<lambda>youtube_subscribers.
     bind_exn (dict_getitem podcast_stats ''instagram_followers'') (\<lambda>instagram_followers.
     bind_exn (dict_getitem podcast_stats ''episode_avg_views'') (\<lambda>episode_avg_views.
     bind_exn (dict_getitem podcast_stats ''estimated_ad_price'') (\<lambda>estimated_ad_price.
       Inr [(''pod_id'', Val pod_id),
            (''similarity_score'', Score score),
            (''content'', Content (page_content doc)),
            (''metadata'', Metadata (metadata doc)),
            (''name'', Val name),
            (''image'', Val image),
            (''summary'', Val summary),
            (''categories'', Val categories),
            (''youtube_id'', Val youtube_id),
            (''spotify_id'', Val spotify_id),
            (''website_name'', Val website_name),
            (''rss_feed'', Val rss_feed),
            (''min_impressions'', Val min_impressions),
            (''max_impressions'', Val max_impressions),
            (''youtube_subscribers'', Val youtube_subscribers),
            (''instagram_followers'', Val instagram_followers),
            (''episode_avg_views'', Val episode_avg_views),
            (''estimated_ad_price'', Val estimated_ad_price)]))))))))))))))"

text \<open>
  The \<open>for\<close> loop over the hits; \<open>enhanced_results\<close> is the list built so far. An exception
  ends the loop.
\<close>

fun enhance_loop ::
  "world \<Rightarrow> hits \<Rightarrow> enhanced_result list \<Rightarrow> (exn + enhanced_result list) \<times> world" where
  "enhance_loop w [] enhanced_results = (Inr enhanced_results, w)"
| "enhance_loop w ((doc, score) # rest) enhanced_results =
     (let pod_id = extract_pod_id (metadata doc);
          (details, w1) = get_podcast_details w pod_id
      in case details of
           Inl e \<Rightarrow> (Inl e, w1)
         | Inr podcast_details \<Rightarrow>
             (let (stats, w2) = get_podcast_stats w1 pod_id
              in case stats of
                   Inl e \<Rightarrow> (Inl e, w2)
                 | Inr podcast_stats \<Rightarrow>
                     (case enhanced_result_of pod_id score doc podcast_details podcast_stats of
                        Inl e \<Rightarrow> (Inl e, w2)
                      | Inr enhanced_result \<Rightarrow>
                          enhance_loop w2 rest (enhanced_results @ [enhanced_result]))))"

definition get_enhanced_podcast_results ::
  "world \<Rightarrow> hits \<Rightarrow> (exn + enhanced_result list) \<times> world" where
  "get_enhanced_podcast_results w vector_results = enhance_loop w vector_results []"

definition load_podcasts_vector_db :: "world \<Rightarrow> exn + (json \<Rightarrow> nat \<Rightarrow> exn + hits)" where
  "load_podcasts_vector_db w = chroma w"

definition search_for_podcasts ::
  "world \<Rightarrow> string \<Rightarrow> (exn + enhanced_result list) \<times> world" where
  "search_for_podcasts w brand_details =
     (case get_required_podcast_details_for_brand w brand_details of
        (Inl e, w1) \<Rightarrow> (Inl e, w1)
      | (Inr llm_result_string_for_brand, w1) \<Rightarrow>
          (case load_podcasts_vector_db w1 of
             Inl e \<Rightarrow> (Inl e, w1)
           | Inr similarity_search_with_score \<Rightarrow>
               (case similarity_search_with_score llm_result_string_for_brand 5 of
                  Inl e \<Rightarrow> (Inl e, w1)
                | Inr vector_results \<Rightarrow>
                    (case get_enhanced_podcast_results w1 vector_results of
                       (Inl e, w2) \<Rightarrow> (Inl e, w2)
                     | (Inr enhanced_results, w2) \<Rightarrow>
                         (Inr enhanced_results,
                          print (''Found '' @ str_of_nat (length enhanced_results)
                                 @ '' enhanced podcast recommendations'') w2)))))"

section \<open>Notions used in the statements\<close>

text \<open>The keys of the two lookup dictionaries, in the order of the dictionary literals.\<close>

definition details_keys :: "string list" where
  "details_keys = [''name'', ''image'', ''summary'', ''categories'', ''youtube_id'',
     ''spotify_id'', ''website_name'', ''rss_feed'']"

definition stats_keys :: "string list" where
  "stats_keys = [''min_impressions'', ''max_impressions'', ''youtube_subscribers'',
     ''instagram_followers'', ''episode_avg_views'', ''estimated_ad_price'']"

text \<open>A lookup dictionary as part of an enhanced result.\<close>

definition wrap :: "dict \<Rightarrow> enhanced_result" where
  "wrap d = map (\<lambda>(k, v). (k, Val v)) d"

text \<open>
  What one enhanced result is, for a hit and the world the lookups read: the identifier,
  the score, the page content and the metadata of the hit, followed by the entries of the
  two lookup dictionaries for the identifier.
\<close>

definition merged :: "world \<Rightarrow> document \<times> real \<Rightarrow> enhanced_result \<Rightarrow> bool" where
  "merged w hit r =
     (\<exists>pd ps.
        fst (get_podcast_details w (extract_pod_id (metadata (fst hit)))) = Inr pd \<and>
        fst (get_podcast_stats w (extract_pod_id (metadata (fst hit)))) = Inr ps \<and>
        r = [(''pod_id'', Val (extract_pod_id (metadata (fst hit)))),
             (''similarity_score'', Score (snd hit)),
             (''content'', Content (page_content (fst hit))),
             (''metadata'', Metadata (metadata (fst hit)))]
            @ map (\<lambda>(k, v). (k, Val v)) (pd @ ps))"

text \<open>
  The table at \<open>path\<close> can be read, has the column \<open>col\<close>, and a row whose cell in that
  column equals \<open>v\<close>.
\<close>

definition has_key :: "world \<Rightarrow> string \<Rightarrow> string \<Rightarrow> pyval \<Rightarrow> bool" where
  "has_key w path col v =
     (case read_csv w path of
        Inl e \<Rightarrow> False
      | Inr df \<Rightarrow> col \<in> set (df_columns df) \<and> list_ex (\<lambda>row. cell_eq row col v) (df_rows df))"

text \<open>
  The cleaning as claim C8 words it, to be compared with \<open>raw_output\<close>: strip the
  backticks, then delete every occurrence of \<open>json\<close>.
\<close>

definition raw_output_as_claimed :: "string \<Rightarrow> string" where
  "raw_output_as_claimed output_text =
     (let raw = strip output_text
      in if startswith raw ''```'' then replace (strip_chars raw ''`'') ''json'' [] else raw)"

section \<open>Example data\<close>

text \<open>
  Two small tables, two hits, a vector store that answers every query with its first
  \<open>k\<close> hits, and a language model that answers every request with the same JSON text.
\<close>

definition example_pods :: dataframe where
  "example_pods =
     \<lparr>df_columns = [''id'', ''name'', ''image'', ''summary'', ''categories'', ''youtubeID'',
                     ''spotifyId'', ''websiteName'', ''rssFeed''],
      df_rows =
        [[(''id'', PStr ''p1''), (''name'', PStr ''Deep Health''),
          (''image'', PStr ''https://img.example/p1.png''), (''summary'', PStr ''Wellness talk''),
          (''categories'', PStr ''health&fitness''), (''youtubeID'', PStr ''UC1''),
          (''spotifyId'', PStr ''sp1''), (''websiteName'', PStr ''deephealth.example''),
          (''rssFeed'', PNaN)]]\<rparr>"

definition example_stats :: dataframe where
  "example_stats =
     \<lparr>df_columns = [''clientId'', ''min_impressions'', ''max_impressions'',
                     ''youtube_subscribers'', ''instagram_followers'', ''episode_avg_views'',
                     ''estimated_ad_price''],
      df_rows =
        [[(''clientId'', PStr ''p1''), (''min_impressions'', PInt 1000),
          (''max_impressions'', PInt 5000), (''youtube_subscribers'', PInt 12000),
          (''instagram_followers'', PInt 800), (''episode_avg_views'', PInt 3000),
          (''estimated_ad_price'', PStr ''$250'')]]\<rparr>"

definition example_hits :: hits where
  "example_hits =
     [(\<lparr>page_content = ''A show about gut health'', metadata = [(''pod_id'', PStr ''p1'')]\<rparr>, 21 / 100),
      (\<lparr>page_content = ''A show about running'', metadata = [(''source'', PStr ''import'')]\<rparr>, 35 / 100)]"

definition example_store :: "json \<Rightarrow> nat \<Rightarrow> exn + hits" where
  "example_store query k = Inr (take k example_hits)"

definition example_world :: world where
  \<open>example_world =
     \<lparr>read_csv = (\<lambda>path. if path = ''0_pods.csv'' then Inr example_pods
                           else if path = ''pods_stats.csv'' then Inr example_stats
                           else Inl (OSError ''No such file or directory'')),
      responses_create = (\<lambda>request. Inr ''{"podcast_details_string": "A weekly show about gut health"}''),
      chroma = Inr example_store,
      recursion_limit = 1000,
      int_max_str_digits = 4300,
      stdout = [],
      llm_requests = []\<rparr>\<close>

definition example_world_no_files :: world where
  "example_world_no_files =
     example_world\<lparr>read_csv := (\<lambda>path. Inl (OSError ''No such file or directory''))\<rparr>"

text \<open>What the search returns in the example world.\<close>

definition example_results :: "enhanced_result list" where
  "example_results =
     [[(''pod_id'', Val (PStr ''p1'')),
       (''similarity_score'', Score (21 / 100)),
       (''content'', Content ''A show about gut health''),
       (''metadata'', Metadata [(''pod_id'', PStr ''p1'')]),
       (''name'', Val (PStr ''Deep Health'')),
       (''image'', Val (PStr ''https://img.example/p1.png'')),
       (''summary'', Val (PStr ''Wellness talk'')),
       (''categories'', Val (PStr ''health&fitness'')),
       (''youtube_id'', Val (PStr ''UC1'')),
       (''spotify_id'', Val (PStr ''sp1'')),
       (''website_name'', Val (PStr ''deephealth.example'')),
       (''rss_feed'', Val PNaN),
       (''min_impressions'', Val (PInt 1000)),
       (''max_impressions'', Val (PInt 5000)),
       (''youtube_subscribers'', Val (PInt 12000)),
       (''instagram_followers'', Val (PInt 800)),
       (''episode_avg_views'', Val (PInt 3000)),
       (''estimated_ad_price'', Val (PStr ''$250''))],
      [(''pod_id'', Val (PStr ''unknown'')),
       (''similarity_score'', Score (35 / 100)),
       (''content'', Content ''A show about running''),
       (''metadata'', Metadata [(''source'', PStr ''import'')]),
       (''name'', Val (PStr ''Podcast unknown'')),
       (''image'', Val (PStr '''')),
       (''summary'', Val (PStr ''No details available'')),
       (''categories'', Val (PStr '''')),
       (''youtube_id'', Val (PStr '''')),
       (''spotify_id'', Val (PStr '''')),
       (''website_name'', Val (PStr '''')),
       (''rss_feed'', Val (PStr '''')),
       (''min_impressions'', Val (PInt 0)),
       (''max_impressions'', Val (PInt 0)),
       (''youtube_subscribers'', Val (PInt 0)),
       (''instagram_followers'', Val (PInt 0)),
       (''episode_avg_views'', Val (PInt 0)),
       (''estimated_ad_price'', Val (PStr ''N/A''))]]"

text \<open>Tables that hold a row with the key \<open>unknown\<close>.\<close>

definition example_world_unknown_row :: world where
  "example_world_unknown_row =
     example_world\<lparr>read_csv :=
       (\<lambda>path. if path = ''0_pods.csv''
               then Inr \<lparr>df_columns = [''id'', ''name''],
                         df_rows = [[(''id'', PStr ''p1''), (''name'', PStr ''Deep Health'')],
                                    [(''id'', PStr ''unknown''), (''name'', PStr ''The Unknown Show'')]]\<rparr>
               else if path = ''pods_stats.csv''
               then Inr \<lparr>df_columns = [''clientId'', ''min_impressions''],
                         df_rows = [[(''clientId'', PStr ''unknown''), (''min_impressions'', PInt 700)]]\<rparr>
               else Inl (OSError ''No such file or directory''))\<rparr>"

text \<open>
  The example world with another answer of the language model, and two fenced answers:
  one with \<open>json\<close> inside the payload, one with \<open>json\<close> before a line break inside it.
\<close>

definition example_world_reply :: "string \<Rightarrow> world" where
  "example_world_reply reply = example_world\<lparr>responses_create := (\<lambda>request. Inr reply)\<rparr>"

definition fenced_reply :: string where
  \<open>fenced_reply =
     ''```json'' @ [CHR 0x0A] @
     ''{"podcast_details_string": "json tips"}'' @ [CHR 0x0A] @
     ''```''\<close>

definition fenced_reply_line_break :: string where
  \<open>fenced_reply_line_break =
     ''```json'' @ [CHR 0x0A] @
     ''{"podcast_details_string": "learn json'' @ [CHR 0x0A] @ ''fast"}'' @ [CHR 0x0A] @
     ''```''\<close>

text \<open>
  An answer that is an object with the key, and with a second member whose value is an
  integer literal of \<open>n\<close> digits.
\<close>

definition long_integer_reply :: "nat \<Rightarrow> string" where
  \<open>long_integer_reply n =
     ''{"podcast_details_string": "a show", "n": '' @ replicate n (CHR ''1'') @ ''}''\<close>

text \<open>
  A language model that answers the request for \<open>vimergy.com\<close> and refuses every other
  request, and one that refuses that request and answers every other.
\<close>

definition example_world_one_request :: world where
  \<open>example_world_one_request =
     example_world\<lparr>responses_create :=
       (\<lambda>request. if request = \<lparr>model = ''gpt-4o'', input = prompt ''vimergy.com'', temperature = 0\<rparr>
                  then Inr ''{"podcast_details_string": "A weekly show about gut health"}''
                  else Inl (APIError ''unexpected request''))\<rparr>\<close>

definition example_world_api_error :: world where
  \<open>example_world_api_error =
     example_world\<lparr>responses_create :=
       (\<lambda>request. if request = \<lparr>model = ''gpt-4o'', input = prompt ''vimergy.com'', temperature = 0\<rparr>
                  then Inl (APIError ''rate limit exceeded'')
                  else Inr ''{"podcast_details_string": "A weekly show about gut health"}'')\<rparr>\<close>



section \<open>The fuel of the decoder is enough\<close>

text \<open>
  Every function of the decoder returns a rest that is shorter than its text, so the
  calls nest at most twice as deep as the text is long: with the fuel \<open>json_loads\<close>
  supplies, more fuel never changes the result. \<open>RecursionError\<close> therefore comes from
  the nesting limit only.
\<close>

lemma bind_exn_simps [simp]:
  "bind_exn (Inl e) f = Inl e"
  "bind_exn (Inr x) f = f x"
  by (simp_all add: bind_exn_def)

lemma emit_Inr: "emit cs r = Inr (x, rest) \<Longrightarrow> \<exists>x'. r = Inr (x', rest)"
  by (cases r) (auto simp: emit_def)

lemma scanstring_rest: "scanstring s = Inr (x, r) \<Longrightarrow> length r < length s"
proof (induction "length s" arbitrary: s x r rule: less_induct)
  case less
  have ih: "\<And>t y. scanstring t = Inr (y, r) \<Longrightarrow> length t < length s \<Longrightarrow> length r < length s"
    using less.hyps by fastforce
  show ?case
  proof (cases s)
    case Nil
    with less.prems show ?thesis by simp
  next
    case (Cons c s')
    with less.prems have "scanstring (c # s') = Inr (x, r)" by simp
    then have "r = s' \<or> (\<exists>t y. length t \<le> length s' \<and> scanstring t = Inr (y, r))"
      apply (subst (asm) scanstring.simps(2))
      apply (simp del: scanstring.simps split: if_splits list.splits option.splits)
      by (auto dest!: emit_Inr simp del: scanstring.simps)
    then show ?thesis using ih unfolding Cons by auto
  qed
qed

lemma skip_ws_length: "length (skip_ws s) \<le> length s"
  by (simp add: skip_ws_def length_dropWhile_le)

lemma bind_exn_Inr: "bind_exn r g = Inr y \<Longrightarrow> \<exists>x. r = Inr x \<and> g x = Inr y"
  by (cases r) simp_all

lemma bind_exn_cong_Inr: "(\<And>x. r = Inr x \<Longrightarrow> g x = h x) \<Longrightarrow> bind_exn r g = bind_exn r h"
  by (cases r) simp_all

lemma startswith_nonempty: "startswith s (p # ps) \<Longrightarrow> s \<noteq> []"
  by (cases s) simp_all

lemma match_number_rest: "match_number m s = Inr (v, r) \<Longrightarrow> length r < length s"
proof -
  have d: "\<And>t. length (dropWhile is_digit t) \<le> length t" by (rule length_dropWhile_le)
  have d1: "\<And>t. length (dropWhile is_digit t) \<le> Suc (length t)"
    using d le_SucI by blast
  have d2: "\<And>t. length (dropWhile is_digit t) \<le> Suc (Suc (length t))"
    using d1 le_SucI by blast
  have f: "\<And>t. length (snd (frac_part t)) \<le> length t"
    by (auto simp: frac_part_def d d1 d2 split: list.splits)
  have e: "\<And>t. length (snd (exp_part t)) \<le> length t"
  proof -
    fix t :: string
    show "length (snd (exp_part t)) \<le> length t"
    proof (cases t)
      case Nil
      then show ?thesis by (simp add: exp_part_def)
    next
      case (Cons a t')
      show ?thesis
        unfolding Cons exp_part_def
        by (auto simp: Let_def d d1 d2 split: list.splits prod.splits if_splits)
    qed
  qed
  assume a: "match_number m s = Inr (v, r)"
  define s1 where "s1 = (case s of c # r \<Rightarrow> if c = CHR ''-'' then r else s | [] \<Rightarrow> s)"
  have l1: "length s1 \<le> length s" by (auto simp: s1_def split: list.splits)
  from a obtain c r0 where s1c: "s1 = c # r0"
    by (cases s1) (auto simp: match_number_def s1_def Let_def split: list.splits if_splits prod.splits)
  define r1 where "r1 = (if c = CHR ''0'' then r0 else dropWhile is_digit r0)"
  have l2: "length r1 \<le> length r0" using d by (simp add: r1_def)
  from a have "r = snd (exp_part (snd (frac_part r1)))"
    using s1c unfolding match_number_def s1_def r1_def
    by (auto simp: Let_def dest!: bind_exn_Inr split: list.splits if_splits prod.splits)
  then have "length r \<le> length r1"
    using e[of "snd (frac_part r1)"] f[of r1] by simp
  then show ?thesis using l1 l2 s1c by simp
qed

lemma tl_skip_length: "s \<noteq> [] \<Longrightarrow> length (skip_ws (tl s)) < length s"
  using skip_ws_length[of "tl s"] by (cases s) simp_all

lemma tl_skip_tl_length:
  "startswith (skip_ws t) (p # ps) \<Longrightarrow> length (tl (skip_ws t)) < length t"
  using skip_ws_length[of t] startswith_nonempty[of "skip_ws t" p ps]
  by (cases "skip_ws t") simp_all

lemma skip_tl_skip_length:
  "startswith (skip_ws t) (p # ps) \<Longrightarrow> length (skip_ws (tl (skip_ws t))) < length t"
  using tl_skip_tl_length[of t p ps] skip_ws_length[of "tl (skip_ws t)"] by simp

lemma drop_length: "startswith s (p # ps) \<Longrightarrow> 0 < n \<Longrightarrow> length (drop n s) < length s"
  using startswith_nonempty[of s p ps] by (cases s) simp_all

lemma scan_rest:
  "(\<forall>d s v r. scan_once f d m s = Inr (v, r) \<longrightarrow> length r < length s)
   \<and> (\<forall>d ps s v r. parse_object f d m ps s = Inr (v, r) \<longrightarrow> length r < length s)
   \<and> (\<forall>d vs s v r. parse_array f d m vs s = Inr (v, r) \<longrightarrow> length r < length s)"
proof (induction f)
  case 0
  show ?case by simp
next
  case (Suc f)
  have ih_s: "\<And>d s v r. scan_once f d m s = Inr (v, r) \<Longrightarrow> length r < length s"
    and ih_o: "\<And>d ps s v r. parse_object f d m ps s = Inr (v, r) \<Longrightarrow> length r < length s"
    and ih_a: "\<And>d vs s v r. parse_array f d m vs s = Inr (v, r) \<Longrightarrow> length r < length s"
    using Suc by blast+
  have s: "length r < length s" if a: "scan_once (Suc f) d m s = Inr (v, r)" for d s v r
  proof -
    from a have ne: "s \<noteq> []" by (auto split: if_splits)
    consider (str) "hd s = dquote"
      | (obj) "hd s \<noteq> dquote" "hd s = CHR ''{''"
      | (arr) "hd s \<noteq> dquote" "hd s \<noteq> CHR ''{''" "hd s = CHR ''[''"
      | (other) "hd s \<noteq> dquote" "hd s \<noteq> CHR ''{''" "hd s \<noteq> CHR ''[''"
      by blast
    then show ?thesis
    proof cases
      case str
      with a ne obtain x where "scanstring (tl s) = Inr (x, r)"
        by (auto dest!: bind_exn_Inr)
      from scanstring_rest[OF this] show ?thesis using ne by (cases s) simp_all
    next
      case obj
      with a ne obtain d' where d': "d = Suc d'" by (cases d) auto
      show ?thesis
      proof (cases "startswith (skip_ws (tl s)) ''}''")
        case True
        with a ne obj d' have "r = tl (skip_ws (tl s))" by simp
        then show ?thesis using tl_skip_length[OF ne] by (cases "skip_ws (tl s)") simp_all
      next
        case False
        with a ne obj d' have "parse_object f d' m [] (skip_ws (tl s)) = Inr (v, r)" by simp
        from ih_o[OF this] tl_skip_length[OF ne] show ?thesis by simp
      qed
    next
      case arr
      with a ne obtain d' where d': "d = Suc d'" by (cases d) auto
      show ?thesis
      proof (cases "startswith (skip_ws (tl s)) '']''")
        case True
        with a ne arr d' have "r = tl (skip_ws (tl s))" by simp
        then show ?thesis using tl_skip_length[OF ne] by (cases "skip_ws (tl s)") simp_all
      next
        case False
        with a ne arr d' have "parse_array f d' m [] (skip_ws (tl s)) = Inr (v, r)" by simp
        from ih_a[OF this] tl_skip_length[OF ne] show ?thesis by simp
      qed
    next
      case other
      have "0 < length s" using ne by simp
      with a ne other show ?thesis
        using match_number_rest[of m s v r]
        by (auto simp del: startswith.simps split: if_splits)
    qed
  qed
  have o: "length r < length s" if a: "parse_object (Suc f) d m ps s = Inr (v, r)" for d ps s v r
  proof -
    from a have q: "startswith s [dquote]" by (auto split: if_splits)
    then have ne: "s \<noteq> []" by (rule startswith_nonempty)
    from a q obtain key r1 where k: "scanstring (tl s) = Inr (key, r1)"
      and c: "startswith (skip_ws r1) '':''"
      and rest: "bind_exn (scan_once f d m (skip_ws (tl (skip_ws r1)))) (\<lambda>(val, r2).
              if startswith (skip_ws r2) ''}''
              then Inr (JObject (ps @ [(key, val)]), tl (skip_ws r2))
              else if \<not> startswith (skip_ws r2) '',''
              then Inl (JSONDecodeError (''Expecting '' @ [CHR 0x27] @ '','' @ [CHR 0x27] @ '' delimiter''))
              else parse_object f d m (ps @ [(key, val)]) (skip_ws (tl (skip_ws r2)))) = Inr (v, r)"
      by (auto dest!: bind_exn_Inr simp del: startswith.simps split: if_splits)
    from rest obtain val r2 where sc: "scan_once f d m (skip_ws (tl (skip_ws r1))) = Inr (val, r2)"
      and fin: "(if startswith (skip_ws r2) ''}''
              then Inr (JObject (ps @ [(key, val)]), tl (skip_ws r2))
              else if \<not> startswith (skip_ws r2) '',''
              then Inl (JSONDecodeError (''Expecting '' @ [CHR 0x27] @ '','' @ [CHR 0x27] @ '' delimiter''))
              else parse_object f d m (ps @ [(key, val)]) (skip_ws (tl (skip_ws r2)))) = Inr (v, r)"
      by (auto dest!: bind_exn_Inr)
    have l1: "length r1 < length s" using scanstring_rest[OF k] ne by (cases s) simp_all
    have l2: "length r2 < length r1"
      using ih_s[OF sc] skip_tl_skip_length[OF c] by simp
    have "length r < length r2"
    proof (cases "startswith (skip_ws r2) ''}''")
      case True
      with fin have "r = tl (skip_ws r2)" by simp
      then show ?thesis using tl_skip_tl_length[OF True] by simp
    next
      case False
      with fin have cm: "startswith (skip_ws r2) '',''"
        and "parse_object f d m (ps @ [(key, val)]) (skip_ws (tl (skip_ws r2))) = Inr (v, r)"
        by (auto simp del: startswith.simps split: if_splits)
      from ih_o[OF this(2)] skip_tl_skip_length[OF cm] show ?thesis by simp
    qed
    with l1 l2 show ?thesis by simp
  qed
  have ar: "length r < length s" if a: "parse_array (Suc f) d m vs s = Inr (v, r)" for d vs s v r
  proof -
    from a obtain val r1 where sc: "scan_once f d m s = Inr (val, r1)"
      and fin: "(if startswith (skip_ws r1) '']''
       then Inr (JArray (vs @ [val]), tl (skip_ws r1))
       else if \<not> startswith (skip_ws r1) '',''
       then Inl (JSONDecodeError (''Expecting '' @ [CHR 0x27] @ '','' @ [CHR 0x27] @ '' delimiter''))
       else parse_array f d m (vs @ [val]) (skip_ws (tl (skip_ws r1)))) = Inr (v, r)"
      by (auto dest!: bind_exn_Inr)
    have l1: "length r1 < length s" by (rule ih_s[OF sc])
    have "length r < length r1"
    proof (cases "startswith (skip_ws r1) '']''")
      case True
      with fin have "r = tl (skip_ws r1)" by simp
      then show ?thesis using tl_skip_tl_length[OF True] by simp
    next
      case False
      with fin have cm: "startswith (skip_ws r1) '',''"
        and "parse_array f d m (vs @ [val]) (skip_ws (tl (skip_ws r1))) = Inr (v, r)"
        by (auto simp del: startswith.simps split: if_splits)
      from ih_a[OF this(2)] skip_tl_skip_length[OF cm] show ?thesis by simp
    qed
    with l1 show ?thesis by simp
  qed
  show ?case using s o ar by blast
qed

lemmas scan_once_rest = scan_rest[THEN conjunct1, rule_format]

lemma fuel_enough:
  "(\<forall>d s. 2 * length s + 1 \<le> f \<longrightarrow> scan_once (f + k) d m s = scan_once f d m s)
   \<and> (\<forall>d ps s. 2 * length s + 1 \<le> f \<longrightarrow> parse_object (f + k) d m ps s = parse_object f d m ps s)
   \<and> (\<forall>d vs s. 2 * length s + 2 \<le> f \<longrightarrow> parse_array (f + k) d m vs s = parse_array f d m vs s)"
proof (induction f)
  case 0
  show ?case by simp
next
  case (Suc f)
  have ih_s: "\<And>d s. 2 * length s + 1 \<le> f \<Longrightarrow> scan_once (f + k) d m s = scan_once f d m s"
    and ih_o: "\<And>d ps s. 2 * length s + 1 \<le> f \<Longrightarrow> parse_object (f + k) d m ps s = parse_object f d m ps s"
    and ih_a: "\<And>d vs s. 2 * length s + 2 \<le> f \<Longrightarrow> parse_array (f + k) d m vs s = parse_array f d m vs s"
    using Suc by blast+
  have s: "scan_once (Suc f + k) d m s = scan_once (Suc f) d m s" if b: "2 * length s + 1 \<le> Suc f" for d s
  proof (cases "s = []")
    case True
    then show ?thesis by simp
  next
    case False
    then have "length (skip_ws (tl s)) < length s" by (rule tl_skip_length)
    with b have b1: "2 * length (skip_ws (tl s)) + 2 \<le> f" by simp
    then have b2: "2 * length (skip_ws (tl s)) + 1 \<le> f" by simp
    have "parse_object (f + k) d' m [] (skip_ws (tl s)) = parse_object f d' m [] (skip_ws (tl s))"
      and "parse_array (f + k) d' m [] (skip_ws (tl s)) = parse_array f d' m [] (skip_ws (tl s))" for d'
      using ih_o[OF b2] ih_a[OF b1] by simp_all
    then show ?thesis by (simp split: nat.splits del: startswith.simps)
  qed
  have o: "parse_object (Suc f + k) d m ps s = parse_object (Suc f) d m ps s"
    if b: "2 * length s + 1 \<le> Suc f" for d ps s
  proof (cases "startswith s [dquote]")
    case False
    then show ?thesis by simp
  next
    case True
    then have ne: "s \<noteq> []" by (rule startswith_nonempty)
    have "bind_exn (scanstring (tl s)) (\<lambda>(key, r1).
          if \<not> startswith (skip_ws r1) '':''
          then Inl (JSONDecodeError (''Expecting '' @ [CHR 0x27] @ '':'' @ [CHR 0x27] @ '' delimiter''))
          else
            bind_exn (scan_once (f + k) d m (skip_ws (tl (skip_ws r1)))) (\<lambda>(val, r2).
              if startswith (skip_ws r2) ''}''
              then Inr (JObject (ps @ [(key, val)]), tl (skip_ws r2))
              else if \<not> startswith (skip_ws r2) '',''
              then Inl (JSONDecodeError (''Expecting '' @ [CHR 0x27] @ '','' @ [CHR 0x27] @ '' delimiter''))
              else parse_object (f + k) d m (ps @ [(key, val)]) (skip_ws (tl (skip_ws r2)))))
      = bind_exn (scanstring (tl s)) (\<lambda>(key, r1).
          if \<not> startswith (skip_ws r1) '':''
          then Inl (JSONDecodeError (''Expecting '' @ [CHR 0x27] @ '':'' @ [CHR 0x27] @ '' delimiter''))
          else
            bind_exn (scan_once f d m (skip_ws (tl (skip_ws r1)))) (\<lambda>(val, r2).
              if startswith (skip_ws r2) ''}''
              then Inr (JObject (ps @ [(key, val)]), tl (skip_ws r2))
              else if \<not> startswith (skip_ws r2) '',''
              then Inl (JSONDecodeError (''Expecting '' @ [CHR 0x27] @ '','' @ [CHR 0x27] @ '' delimiter''))
              else parse_object f d m (ps @ [(key, val)]) (skip_ws (tl (skip_ws r2)))))"
    proof (rule bind_exn_cong_Inr)
      fix x assume x: "scanstring (tl s) = Inr x"
      obtain key r1 where xk: "x = (key, r1)" by (cases x)
      have l1: "Suc (length r1) < length s"
        using scanstring_rest[OF x[unfolded xk]] ne by (cases s) simp_all
      show "(case x of (key, r1) \<Rightarrow>
          if \<not> startswith (skip_ws r1) '':''
          then Inl (JSONDecodeError (''Expecting '' @ [CHR 0x27] @ '':'' @ [CHR 0x27] @ '' delimiter''))
          else
            bind_exn (scan_once (f + k) d m (skip_ws (tl (skip_ws r1)))) (\<lambda>(val, r2).
              if startswith (skip_ws r2) ''}''
              then Inr (JObject (ps @ [(key, val)]), tl (skip_ws r2))
              else if \<not> startswith (skip_ws r2) '',''
              then Inl (JSONDecodeError (''Expecting '' @ [CHR 0x27] @ '','' @ [CHR 0x27] @ '' delimiter''))
              else parse_object (f + k) d m (ps @ [(key, val)]) (skip_ws (tl (skip_ws r2)))))
        = (case x of (key, r1) \<Rightarrow>
          if \<not> startswith (skip_ws r1) '':''
          then Inl (JSONDecodeError (''Expecting '' @ [CHR 0x27] @ '':'' @ [CHR 0x27] @ '' delimiter''))
          else
            bind_exn (scan_once f d m (skip_ws (tl (skip_ws r1)))) (\<lambda>(val, r2).
              if startswith (skip_ws r2) ''}''
              then Inr (JObject (ps @ [(key, val)]), tl (skip_ws r2))
              else if \<not> startswith (skip_ws r2) '',''
              then Inl (JSONDecodeError (''Expecting '' @ [CHR 0x27] @ '','' @ [CHR 0x27] @ '' delimiter''))
              else parse_object f d m (ps @ [(key, val)]) (skip_ws (tl (skip_ws r2)))))"
      proof (cases "startswith (skip_ws r1) '':''")
        case False
        then show ?thesis by (simp add: xk del: startswith.simps)
      next
        case c: True
        define Y where "Y = skip_ws (tl (skip_ws r1))"
        have l2: "length Y < length r1" unfolding Y_def by (rule skip_tl_skip_length[OF c])
        with l1 b have bY: "2 * length Y + 1 \<le> f" by simp
        have e1: "scan_once (f + k) d m Y = scan_once f d m Y" by (rule ih_s[OF bY])
        have "bind_exn (scan_once f d m Y) (\<lambda>(val, r2).
              if startswith (skip_ws r2) ''}''
              then Inr (JObject (ps @ [(key, val)]), tl (skip_ws r2))
              else if \<not> startswith (skip_ws r2) '',''
              then Inl (JSONDecodeError (''Expecting '' @ [CHR 0x27] @ '','' @ [CHR 0x27] @ '' delimiter''))
              else parse_object (f + k) d m (ps @ [(key, val)]) (skip_ws (tl (skip_ws r2))))
          = bind_exn (scan_once f d m Y) (\<lambda>(val, r2).
              if startswith (skip_ws r2) ''}''
              then Inr (JObject (ps @ [(key, val)]), tl (skip_ws r2))
              else if \<not> startswith (skip_ws r2) '',''
              then Inl (JSONDecodeError (''Expecting '' @ [CHR 0x27] @ '','' @ [CHR 0x27] @ '' delimiter''))
              else parse_object f d m (ps @ [(key, val)]) (skip_ws (tl (skip_ws r2))))"
        proof (rule bind_exn_cong_Inr)
          fix y assume y: "scan_once f d m Y = Inr y"
          obtain val r2 where yv: "y = (val, r2)" by (cases y)
          have l3: "length r2 < length Y" using scan_once_rest[OF y[unfolded yv]] .
          have "parse_object (f + k) d m (ps @ [(key, val)]) (skip_ws (tl (skip_ws r2)))
                = parse_object f d m (ps @ [(key, val)]) (skip_ws (tl (skip_ws r2)))"
            if cm: "startswith (skip_ws r2) '',''"
          proof -
            have "length (skip_ws (tl (skip_ws r2))) < length r2"
              by (rule skip_tl_skip_length[OF cm])
            with l3 bY have "2 * length (skip_ws (tl (skip_ws r2))) + 1 \<le> f" by simp
            then show ?thesis by (rule ih_o)
          qed
          then show "(case y of (val, r2) \<Rightarrow>
              if startswith (skip_ws r2) ''}''
              then Inr (JObject (ps @ [(key, val)]), tl (skip_ws r2))
              else if \<not> startswith (skip_ws r2) '',''
              then Inl (JSONDecodeError (''Expecting '' @ [CHR 0x27] @ '','' @ [CHR 0x27] @ '' delimiter''))
              else parse_object (f + k) d m (ps @ [(key, val)]) (skip_ws (tl (skip_ws r2))))
            = (case y of (val, r2) \<Rightarrow>
              if startswith (skip_ws r2) ''}''
              then Inr (JObject (ps @ [(key, val)]), tl (skip_ws r2))
              else if \<not> startswith (skip_ws r2) '',''
              then Inl (JSONDecodeError (''Expecting '' @ [CHR 0x27] @ '','' @ [CHR 0x27] @ '' delimiter''))
              else parse_object f d m (ps @ [(key, val)]) (skip_ws (tl (skip_ws r2))))"
            by (simp add: yv del: startswith.simps)
        qed
        then show ?thesis
          using c by (simp add: xk e1 Y_def[symmetric] del: startswith.simps)
      qed
    qed
    then show ?thesis using True by (simp del: startswith.simps)
  qed
  have a: "parse_array (Suc f + k) d m vs s = parse_array (Suc f) d m vs s"
    if b: "2 * length s + 2 \<le> Suc f" for d vs s
  proof -
    from b have bs: "2 * length s + 1 \<le> f" by simp
    have e1: "scan_once (f + k) d m s = scan_once f d m s" by (rule ih_s[OF bs])
    have "bind_exn (scan_once f d m s) (\<lambda>(val, r1).
       if startswith (skip_ws r1) '']''
       then Inr (JArray (vs @ [val]), tl (skip_ws r1))
       else if \<not> startswith (skip_ws r1) '',''
       then Inl (JSONDecodeError (''Expecting '' @ [CHR 0x27] @ '','' @ [CHR 0x27] @ '' delimiter''))
       else parse_array (f + k) d m (vs @ [val]) (skip_ws (tl (skip_ws r1))))
      = bind_exn (scan_once f d m s) (\<lambda>(val, r1).
       if startswith (skip_ws r1) '']''
       then Inr (JArray (vs @ [val]), tl (skip_ws r1))
       else if \<not> startswith (skip_ws r1) '',''
       then Inl (JSONDecodeError (''Expecting '' @ [CHR 0x27] @ '','' @ [CHR 0x27] @ '' delimiter''))
       else parse_array f d m (vs @ [val]) (skip_ws (tl (skip_ws r1))))"
    proof (rule bind_exn_cong_Inr)
      fix y assume y: "scan_once f d m s = Inr y"
      obtain val r1 where yv: "y = (val, r1)" by (cases y)
      have l1: "length r1 < length s" using scan_once_rest[OF y[unfolded yv]] .
      have "parse_array (f + k) d m (vs @ [val]) (skip_ws (tl (skip_ws r1)))
            = parse_array f d m (vs @ [val]) (skip_ws (tl (skip_ws r1)))"
        if cm: "startswith (skip_ws r1) '',''"
      proof -
        have "length (skip_ws (tl (skip_ws r1))) < length r1"
          by (rule skip_tl_skip_length[OF cm])
        with l1 bs have "2 * length (skip_ws (tl (skip_ws r1))) + 2 \<le> f" by simp
        then show ?thesis by (rule ih_a)
      qed
      then show "(case y of (val, r1) \<Rightarrow>
       if startswith (skip_ws r1) '']''
       then Inr (JArray (vs @ [val]), tl (skip_ws r1))
       else if \<not> startswith (skip_ws r1) '',''
       then Inl (JSONDecodeError (''Expecting '' @ [CHR 0x27] @ '','' @ [CHR 0x27] @ '' delimiter''))
       else parse_array (f + k) d m (vs @ [val]) (skip_ws (tl (skip_ws r1))))
      = (case y of (val, r1) \<Rightarrow>
       if startswith (skip_ws r1) '']''
       then Inr (JArray (vs @ [val]), tl (skip_ws r1))
       else if \<not> startswith (skip_ws r1) '',''
       then Inl (JSONDecodeError (''Expecting '' @ [CHR 0x27] @ '','' @ [CHR 0x27] @ '' delimiter''))
       else parse_array f d m (vs @ [val]) (skip_ws (tl (skip_ws r1))))"
        by (simp add: yv del: startswith.simps)
    qed
    then show ?thesis by (simp add: e1 del: startswith.simps)
  qed
  show ?case using s o a by blast
qed

lemma json_loads_fuel:
  "scan_once (2 * length s + 2 + k) limit m (skip_ws s) = scan_once (2 * length s + 2) limit m (skip_ws s)"
proof -
  have "2 * length (skip_ws s) + 1 \<le> 2 * length s + 2"
    using skip_ws_length[of s] by simp
  then show ?thesis using fuel_enough[of "2 * length s + 2" k] by blast
qed

section \<open>The lookups\<close>


lemma details_try_keys:
  "get_podcast_details_try w cid = Inr d \<Longrightarrow> map fst d = details_keys"
  by (auto simp: get_podcast_details_try_def bind_exn_def details_found_def
        details_placeholder_def details_keys_def split: sum.splits if_splits)

lemma stats_try_keys:
  "get_podcast_stats_try w cid = Inr d \<Longrightarrow> map fst d = stats_keys"
  by (auto simp: get_podcast_stats_try_def bind_exn_def stats_found_def
        stats_placeholder_def stats_keys_def split: sum.splits if_splits)

lemma details_keys_all:
  "\<exists>d. fst (get_podcast_details w cid) = Inr d \<and> map fst d = details_keys"
  by (cases "get_podcast_details_try w cid")
     (auto simp: get_podcast_details_def details_try_keys details_placeholder_def details_keys_def)

lemma stats_keys_all:
  "\<exists>d. fst (get_podcast_stats w cid) = Inr d \<and> map fst d = stats_keys"
  by (cases "get_podcast_stats_try w cid")
     (auto simp: get_podcast_stats_def stats_try_keys stats_placeholder_def stats_keys_def)

lemma details_frame: "\<exists>out. snd (get_podcast_details w cid) = w\<lparr>stdout := out\<rparr>"
proof (cases "get_podcast_details_try w cid")
  case (Inl e)
  then show ?thesis by (auto simp: get_podcast_details_def print_def)
next
  case (Inr d)
  then have "snd (get_podcast_details w cid) = w\<lparr>stdout := stdout w\<rparr>"
    by (simp add: get_podcast_details_def)
  then show ?thesis by blast
qed

lemma stats_frame: "\<exists>out. snd (get_podcast_stats w cid) = w\<lparr>stdout := out\<rparr>"
proof (cases "get_podcast_stats_try w cid")
  case (Inl e)
  then show ?thesis by (auto simp: get_podcast_stats_def print_def)
next
  case (Inr d)
  then have "snd (get_podcast_stats w cid) = w\<lparr>stdout := stdout w\<rparr>"
    by (simp add: get_podcast_stats_def)
  then show ?thesis by blast
qed

lemma details_stdout [simp]:
  "fst (get_podcast_details (w\<lparr>stdout := out\<rparr>) cid) = fst (get_podcast_details w cid)"
  by (simp add: get_podcast_details_def get_podcast_details_try_def split: sum.splits)

lemma stats_stdout [simp]:
  "fst (get_podcast_stats (w\<lparr>stdout := out\<rparr>) cid) = fst (get_podcast_stats w cid)"
  by (simp add: get_podcast_stats_def get_podcast_stats_try_def split: sum.splits)

lemma enhanced_result_of_keys:
  assumes "map fst pd = details_keys" "map fst ps = stats_keys"
  shows "enhanced_result_of pod_id score doc pd ps =
         Inr ([(''pod_id'', Val pod_id), (''similarity_score'', Score score),
               (''content'', Content (page_content doc)), (''metadata'', Metadata (metadata doc))]
              @ wrap (pd @ ps))"
proof -
  from assms(1) obtain v1 v2 v3 v4 v5 v6 v7 v8 where pd:
    "pd = [(''name'', v1), (''image'', v2), (''summary'', v3), (''categories'', v4),
           (''youtube_id'', v5), (''spotify_id'', v6), (''website_name'', v7), (''rss_feed'', v8)]"
    by (auto simp: details_keys_def map_eq_Cons_conv)
  from assms(2) obtain u1 u2 u3 u4 u5 u6 where ps:
    "ps = [(''min_impressions'', u1), (''max_impressions'', u2), (''youtube_subscribers'', u3),
           (''instagram_followers'', u4), (''episode_avg_views'', u5), (''estimated_ad_price'', u6)]"
    by (auto simp: stats_keys_def map_eq_Cons_conv)
  show ?thesis
    unfolding pd ps by (simp add: enhanced_result_of_def dict_getitem_def wrap_def)
qed

text \<open>
  C10: every return path of \<open>get_podcast_details\<close> gives a dictionary with exactly the
  eight keys name, image, summary, categories, youtube_id, spotify_id, website_name and
  rss_feed, and every return path of \<open>get_podcast_stats\<close> one with exactly the six keys
  min_impressions, max_impressions, youtube_subscribers, instagram_followers,
  episode_avg_views and estimated_ad_price, whatever the tables hold and whether or not
  they can be read.
\<close>

theorem lookup_keys_fixed:
  "(\<exists>d. fst (get_podcast_details w client_id) = Inr d \<and>
        map fst d = [''name'', ''image'', ''summary'', ''categories'', ''youtube_id'',
                     ''spotify_id'', ''website_name'', ''rss_feed''])
   \<and> (\<exists>d. fst (get_podcast_stats w client_id) = Inr d \<and>
        map fst d = [''min_impressions'', ''max_impressions'', ''youtube_subscribers'',
                     ''instagram_followers'', ''episode_avg_views'', ''estimated_ad_price''])"
  using details_keys_all[of w client_id] stats_keys_all[of w client_id]
  by (simp add: details_keys_def stats_keys_def)

lemma details_read_only:
  "read_csv w' = read_csv w \<Longrightarrow> fst (get_podcast_details w' cid) = fst (get_podcast_details w cid)"
  by (simp add: get_podcast_details_def get_podcast_details_try_def split: sum.splits)

lemma stats_read_only:
  "read_csv w' = read_csv w \<Longrightarrow> fst (get_podcast_stats w' cid) = fst (get_podcast_stats w cid)"
  by (simp add: get_podcast_stats_def get_podcast_stats_try_def split: sum.splits)

lemma merged_read_only:
  assumes "read_csv w' = read_csv w"
  shows "merged w' hit r = merged w hit r"
  unfolding merged_def
  by (simp only: details_read_only[OF assms] stats_read_only[OF assms])

lemma enhance_loop_spec:
  "\<exists>rs out. enhance_loop w hits acc = (Inr (acc @ rs), w\<lparr>stdout := out\<rparr>)
            \<and> list_all2 (merged w) hits rs"
proof (induction hits arbitrary: w acc)
  case Nil
  have "enhance_loop w [] acc = (Inr (acc @ []), w\<lparr>stdout := stdout w\<rparr>)" by simp
  then show ?case by blast
next
  case (Cons hit rest)
  obtain doc score where hit: "hit = (doc, score)" by (cases hit)
  define pod_id where "pod_id = extract_pod_id (metadata doc)"
  obtain pd where pd: "fst (get_podcast_details w pod_id) = Inr pd" "map fst pd = details_keys"
    using details_keys_all by blast
  obtain o1 where o1: "snd (get_podcast_details w pod_id) = w\<lparr>stdout := o1\<rparr>"
    using details_frame by blast
  have d: "get_podcast_details w pod_id = (Inr pd, w\<lparr>stdout := o1\<rparr>)"
    using pd(1) o1 by (metis prod.collapse)
  obtain ps where ps: "fst (get_podcast_stats (w\<lparr>stdout := o1\<rparr>) pod_id) = Inr ps"
    "map fst ps = stats_keys"
    using stats_keys_all by blast
  obtain o2 where o2: "snd (get_podcast_stats (w\<lparr>stdout := o1\<rparr>) pod_id) = w\<lparr>stdout := o2\<rparr>"
    using stats_frame[of "w\<lparr>stdout := o1\<rparr>" pod_id] by auto
  have s: "get_podcast_stats (w\<lparr>stdout := o1\<rparr>) pod_id = (Inr ps, w\<lparr>stdout := o2\<rparr>)"
    using ps(1) o2 by (metis prod.collapse)
  define r where "r = [(''pod_id'', Val pod_id), (''similarity_score'', Score score),
               (''content'', Content (page_content doc)), (''metadata'', Metadata (metadata doc))]
              @ wrap (pd @ ps)"
  have e: "enhanced_result_of pod_id score doc pd ps = Inr r"
    unfolding r_def by (rule enhanced_result_of_keys[OF pd(2) ps(2)])
  from Cons.IH[of "w\<lparr>stdout := o2\<rparr>" "acc @ [r]"] obtain rs out where
    ih: "enhance_loop (w\<lparr>stdout := o2\<rparr>) rest (acc @ [r]) = (Inr ((acc @ [r]) @ rs), w\<lparr>stdout := o2\<rparr>\<lparr>stdout := out\<rparr>)"
      "list_all2 (merged (w\<lparr>stdout := o2\<rparr>)) rest rs"
    by blast
  have step: "enhance_loop w (hit # rest) acc = (Inr (acc @ (r # rs)), w\<lparr>stdout := out\<rparr>)"
    using d s e ih(1) by (simp add: hit pod_id_def[symmetric])
  have m1: "merged w hit r"
    unfolding merged_def
    using pd(1) ps(1) by (auto simp: hit pod_id_def[symmetric] r_def wrap_def)
  have m2: "list_all2 (merged w) rest rs"
    using ih(2) merged_read_only[of "w\<lparr>stdout := o2\<rparr>" w] by (simp cong: list.rel_cong)
  show ?case using step m1 m2 by blast
qed

lemma enhanced_spec:
  "\<exists>rs out. get_enhanced_podcast_results w hits = (Inr rs, w\<lparr>stdout := out\<rparr>)
            \<and> list_all2 (merged w) hits rs"
  using enhance_loop_spec[of w hits "[]"] by (simp add: get_enhanced_podcast_results_def)

lemma required_frame:
  "\<exists>out reqs. snd (get_required_podcast_details_for_brand w bd) = w\<lparr>stdout := out, llm_requests := reqs\<rparr>"
proof -
  define req where "req = \<lparr>model = ''gpt-4o'', input = prompt bd, temperature = 0\<rparr>"
  define w1 where "w1 = w\<lparr>llm_requests := llm_requests w @ [req]\<rparr>"
  have a: "w1 = w\<lparr>stdout := stdout w, llm_requests := llm_requests w @ [req]\<rparr>"
    by (simp add: w1_def)
  have b: "print l w1 = w\<lparr>stdout := stdout w @ [l], llm_requests := llm_requests w @ [req]\<rparr>" for l
    by (simp add: w1_def print_def)
  have "snd (get_required_podcast_details_for_brand w bd) = w1
        \<or> (\<exists>l. snd (get_required_podcast_details_for_brand w bd) = print l w1)"
    by (auto simp: get_required_podcast_details_for_brand_def Let_def req_def w1_def
             split: sum.splits)
  then show ?thesis
  proof
    assume "snd (get_required_podcast_details_for_brand w bd) = w1"
    then have "snd (get_required_podcast_details_for_brand w bd)
               = w\<lparr>stdout := stdout w, llm_requests := llm_requests w @ [req]\<rparr>"
      using a by simp
    then show ?thesis by (intro exI)
  next
    assume "\<exists>l. snd (get_required_podcast_details_for_brand w bd) = print l w1"
    then obtain l where "snd (get_required_podcast_details_for_brand w bd) = print l w1" ..
    then have "snd (get_required_podcast_details_for_brand w bd)
               = w\<lparr>stdout := stdout w @ [l], llm_requests := llm_requests w @ [req]\<rparr>"
      using b[of l] by simp
    then show ?thesis by (intro exI)
  qed
qed

lemma search_frame:
  "\<exists>out reqs. snd (search_for_podcasts w bd) = w\<lparr>stdout := out, llm_requests := reqs\<rparr>"
proof -
  obtain r1 w1 where g: "get_required_podcast_details_for_brand w bd = (r1, w1)" by fastforce
  obtain o1 q1 where w1: "w1 = w\<lparr>stdout := o1, llm_requests := q1\<rparr>"
    using required_frame[of w bd] g by auto
  have k: "\<exists>out reqs. w1 = w\<lparr>stdout := out, llm_requests := reqs\<rparr>" using w1 by blast
  show ?thesis
  proof (cases r1)
    case (Inl e)
    then show ?thesis using g k by (simp add: search_for_podcasts_def)
  next
    case (Inr q)
    note r1 = this
    show ?thesis
    proof (cases "chroma w1")
      case (Inl e)
      then show ?thesis using g k r1 by (simp add: search_for_podcasts_def load_podcasts_vector_db_def)
    next
      case (Inr db)
      note db = this
      show ?thesis
      proof (cases "db q 5")
        case (Inl e)
        then show ?thesis using g k r1 db
          by (simp add: search_for_podcasts_def load_podcasts_vector_db_def)
      next
        case (Inr vs)
        obtain rs out where e: "get_enhanced_podcast_results w1 vs = (Inr rs, w1\<lparr>stdout := out\<rparr>)"
          using enhanced_spec by blast
        have "snd (search_for_podcasts w bd)
              = w\<lparr>stdout := out @ [''Found '' @ str_of_nat (length rs)
                                 @ '' enhanced podcast recommendations''], llm_requests := q1\<rparr>"
          using g r1 db Inr e
          by (simp add: search_for_podcasts_def load_podcasts_vector_db_def print_def w1)
        then show ?thesis by (intro exI)
      qed
    qed
  qed
qed



lemma search_total:
  assumes q: "fst (get_required_podcast_details_for_brand w bd) = Inr query"
    and db: "chroma w = Inr db"
    and vs: "db query 5 = Inr vs"
  shows "\<exists>rs. fst (search_for_podcasts w bd) = Inr rs \<and> list_all2 (merged w) vs rs"
proof -
  obtain r1 w1 where g: "get_required_podcast_details_for_brand w bd = (r1, w1)" by fastforce
  then have r1: "r1 = Inr query" using q by simp
  obtain o1 q1 where w1: "w1 = w\<lparr>stdout := o1, llm_requests := q1\<rparr>"
    using required_frame[of w bd] g by auto
  have c: "chroma w1 = Inr db" using db by (simp add: w1)
  have rc: "read_csv w1 = read_csv w" using w1 by simp
  obtain rs out where e: "get_enhanced_podcast_results w1 vs = (Inr rs, w1\<lparr>stdout := out\<rparr>)"
     "list_all2 (merged w1) vs rs"
    using enhanced_spec by blast
  have "merged w1 = merged w"
    by (intro ext) (rule merged_read_only[OF rc])
  then have "list_all2 (merged w) vs rs" using e(2) by simp
  moreover have "fst (search_for_podcasts w bd) = Inr rs"
    using g r1 c vs e(1) by (simp add: search_for_podcasts_def load_podcasts_vector_db_def)
  ultimately show ?thesis by blast
qed

section \<open>Evaluating the example\<close>

lemma ex_raw: \<open>raw_output ''{"podcast_details_string": "A weekly show about gut health"}'' = ''{"podcast_details_string": "A weekly show about gut health"}''\<close>
  by code_simp

lemma ex_loads: \<open>json_loads 1000 4300 ''{"podcast_details_string": "A weekly show about gut health"}'' = Inr (JObject [(''podcast_details_string'', JString ''A weekly show about gut health'')])\<close>
  by code_simp

lemma ex_required: "fst (get_required_podcast_details_for_brand example_world ''vimergy.com'') = Inr (JString ''A weekly show about gut health'')"
  by (simp add: get_required_podcast_details_for_brand_def example_world_def ex_raw ex_loads Let_def)

lemma ex_store5: "example_store q 5 = Inr example_hits"
  by (simp add: example_store_def example_hits_def)

lemma ex_details_p1:
  "fst (get_podcast_details example_world (PStr ''p1'')) =
     Inr [(''name'', PStr ''Deep Health''), (''image'', PStr ''https://img.example/p1.png''),
          (''summary'', PStr ''Wellness talk''), (''categories'', PStr ''health&fitness''),
          (''youtube_id'', PStr ''UC1''), (''spotify_id'', PStr ''sp1''),
          (''website_name'', PStr ''deephealth.example''), (''rss_feed'', PNaN)]"
  by (simp add: get_podcast_details_def get_podcast_details_try_def example_world_def
        example_pods_def df_select_eq_def cell_eq_def df_empty_def df_iloc0_def
        details_found_def dict_get_def)

lemma ex_stats_p1:
  "fst (get_podcast_stats example_world (PStr ''p1'')) =
     Inr [(''min_impressions'', PInt 1000), (''max_impressions'', PInt 5000),
          (''youtube_subscribers'', PInt 12000), (''instagram_followers'', PInt 800),
          (''episode_avg_views'', PInt 3000), (''estimated_ad_price'', PStr ''$250'')]"
  by (simp add: get_podcast_stats_def get_podcast_stats_try_def example_world_def
        example_stats_def df_select_eq_def cell_eq_def df_empty_def df_iloc0_def
        stats_found_def dict_get_def)

lemma ex_details_unknown:
  "fst (get_podcast_details example_world (PStr ''unknown'')) =
     Inr (details_placeholder (PStr ''unknown'') ''No details available'')"
  by (simp add: get_podcast_details_def get_podcast_details_try_def example_world_def
        example_pods_def df_select_eq_def cell_eq_def df_empty_def)

lemma ex_stats_unknown:
  "fst (get_podcast_stats example_world (PStr ''unknown'')) = Inr stats_placeholder"
  by (simp add: get_podcast_stats_def get_podcast_stats_try_def example_world_def
        example_stats_def df_select_eq_def cell_eq_def df_empty_def)

lemma ex_merged:
  "list_all2 (merged example_world) example_hits rs \<Longrightarrow> rs = example_results"
  by (auto simp: example_hits_def list_all2_Cons1 merged_def extract_pod_id_def dict_get_def
        ex_details_p1 ex_stats_p1 ex_details_unknown ex_stats_unknown example_results_def
        details_placeholder_def stats_placeholder_def)

lemma ex_no_unknown_key:
  "\<not> has_key example_world ''0_pods.csv'' ''id'' (PStr ''unknown'')"
  "\<not> has_key example_world ''pods_stats.csv'' ''clientId'' (PStr ''unknown'')"
  by (simp_all add: has_key_def example_world_def example_pods_def example_stats_def cell_eq_def)

lemma ex_unknown_row_details:
  "fst (get_podcast_details example_world_unknown_row (PStr ''unknown'')) =
     Inr [(''name'', PStr ''The Unknown Show''), (''image'', PStr ''''), (''summary'', PStr ''''),
          (''categories'', PStr ''''), (''youtube_id'', PStr ''''), (''spotify_id'', PStr ''''),
          (''website_name'', PStr ''''), (''rss_feed'', PStr '''')]"
  by (simp add: get_podcast_details_def get_podcast_details_try_def example_world_unknown_row_def
        df_select_eq_def cell_eq_def df_empty_def df_iloc0_def details_found_def dict_get_def)

lemma ex_unknown_row_stats:
  "fst (get_podcast_stats example_world_unknown_row (PStr ''unknown'')) =
     Inr [(''min_impressions'', PInt 700), (''max_impressions'', PInt 0),
          (''youtube_subscribers'', PInt 0), (''instagram_followers'', PInt 0),
          (''episode_avg_views'', PInt 0), (''estimated_ad_price'', PStr ''N/A'')]"
  by (simp add: get_podcast_stats_def get_podcast_stats_try_def example_world_unknown_row_def
        df_select_eq_def cell_eq_def df_empty_def df_iloc0_def stats_found_def dict_get_def)

lemma details_without_key:
  assumes "\<not> has_key w ''0_pods.csv'' ''id'' cid"
  shows "fst (get_podcast_details w cid) = Inr (details_placeholder cid ''No details available'')
         \<or> fst (get_podcast_details w cid) = Inr (details_placeholder cid ''Error loading details'')"
proof (cases "read_csv w ''0_pods.csv''")
  case (Inl e)
  then show ?thesis by (simp add: get_podcast_details_def get_podcast_details_try_def)
next
  case (Inr df)
  show ?thesis
  proof (cases "''id'' \<in> set (df_columns df)")
    case False
    then show ?thesis using Inr
      by (simp add: get_podcast_details_def get_podcast_details_try_def df_select_eq_def)
  next
    case True
    with assms Inr have "filter (\<lambda>row. cell_eq row ''id'' cid) (df_rows df) = []"
      by (simp add: has_key_def list_ex_iff filter_empty_conv)
    then show ?thesis using Inr True
      by (simp add: get_podcast_details_def get_podcast_details_try_def df_select_eq_def
            df_empty_def)
  qed
qed

lemma stats_without_key:
  assumes "\<not> has_key w ''pods_stats.csv'' ''clientId'' cid"
  shows "fst (get_podcast_stats w cid) = Inr stats_placeholder"
proof (cases "read_csv w ''pods_stats.csv''")
  case (Inl e)
  then show ?thesis by (simp add: get_podcast_stats_def get_podcast_stats_try_def)
next
  case (Inr df)
  show ?thesis
  proof (cases "''clientId'' \<in> set (df_columns df)")
    case False
    then show ?thesis using Inr
      by (simp add: get_podcast_stats_def get_podcast_stats_try_def df_select_eq_def)
  next
    case True
    with assms Inr have "filter (\<lambda>row. cell_eq row ''clientId'' cid) (df_rows df) = []"
      by (simp add: has_key_def list_ex_iff filter_empty_conv)
    then show ?thesis using Inr True
      by (simp add: get_podcast_stats_def get_podcast_stats_try_def df_select_eq_def
            df_empty_def)
  qed
qed

lemma merged_pod_id:
  "merged w hit r \<Longrightarrow> map_of r ''pod_id'' = Some (Val (extract_pod_id (metadata (fst hit))))"
  by (auto simp: merged_def)





section \<open>The claims about the lookups and the search\<close>

text \<open>
  C2: for every \<open>client_id\<close>, \<open>get_podcast_details\<close> and \<open>get_podcast_stats\<close> return a
  dictionary and never raise. When the table has its key column and no row with the
  key, each returns its default dictionary (the placeholder name \<open>Podcast <client_id>\<close>
  with \<open>No details available\<close>, and the zero and \<open>N/A\<close> metrics). When anything in the
  \<open>try\<close> block raises, in particular when the file cannot be read, each returns its
  placeholder dictionary instead of the exception.
\<close>

theorem lookups_never_raise:
  "(\<exists>d. fst (get_podcast_details w client_id) = Inr d)
   \<and> (\<exists>d. fst (get_podcast_stats w client_id) = Inr d)
   \<and> (read_csv w ''0_pods.csv'' = Inr pods_df \<and> ''id'' \<in> set (df_columns pods_df)
        \<and> (\<forall>row \<in> set (df_rows pods_df). \<not> cell_eq row ''id'' client_id)
       \<longrightarrow> get_podcast_details w client_id =
             (Inr [(''name'', PStr (''Podcast '' @ py_str client_id)), (''image'', PStr ''''),
                   (''summary'', PStr ''No details available''), (''categories'', PStr ''''),
                   (''youtube_id'', PStr ''''), (''spotify_id'', PStr ''''),
                   (''website_name'', PStr ''''), (''rss_feed'', PStr '''')], w))
   \<and> (read_csv w ''pods_stats.csv'' = Inr stats_df \<and> ''clientId'' \<in> set (df_columns stats_df)
        \<and> (\<forall>row \<in> set (df_rows stats_df). \<not> cell_eq row ''clientId'' client_id)
       \<longrightarrow> get_podcast_stats w client_id =
             (Inr [(''min_impressions'', PInt 0), (''max_impressions'', PInt 0),
                   (''youtube_subscribers'', PInt 0), (''instagram_followers'', PInt 0),
                   (''episode_avg_views'', PInt 0), (''estimated_ad_price'', PStr ''N/A'')], w))
   \<and> (get_podcast_details_try w' client_id = Inl e
       \<longrightarrow> fst (get_podcast_details w' client_id) =
             Inr [(''name'', PStr (''Podcast '' @ py_str client_id)), (''image'', PStr ''''),
                  (''summary'', PStr ''Error loading details''), (''categories'', PStr ''''),
                  (''youtube_id'', PStr ''''), (''spotify_id'', PStr ''''),
                  (''website_name'', PStr ''''), (''rss_feed'', PStr '''')])
   \<and> (get_podcast_stats_try w' client_id = Inl e'
       \<longrightarrow> fst (get_podcast_stats w' client_id) =
             Inr [(''min_impressions'', PInt 0), (''max_impressions'', PInt 0),
                  (''youtube_subscribers'', PInt 0), (''instagram_followers'', PInt 0),
                  (''episode_avg_views'', PInt 0), (''estimated_ad_price'', PStr ''N/A'')])
   \<and> (read_csv w' ''0_pods.csv'' = Inl e \<longrightarrow> get_podcast_details_try w' client_id = Inl e)
   \<and> (read_csv w' ''pods_stats.csv'' = Inl e' \<longrightarrow> get_podcast_stats_try w' client_id = Inl e')"
proof (intro conjI impI)
  show "\<exists>d. fst (get_podcast_details w client_id) = Inr d"
    using details_keys_all by blast
  show "\<exists>d. fst (get_podcast_stats w client_id) = Inr d"
    using stats_keys_all by blast
next
  assume a: "read_csv w ''0_pods.csv'' = Inr pods_df \<and> ''id'' \<in> set (df_columns pods_df)
        \<and> (\<forall>row \<in> set (df_rows pods_df). \<not> cell_eq row ''id'' client_id)"
  then have "filter (\<lambda>row. cell_eq row ''id'' client_id) (df_rows pods_df) = []"
    by (simp add: filter_empty_conv)
  with a have "get_podcast_details_try w client_id
               = Inr (details_placeholder client_id ''No details available'')"
    by (simp add: get_podcast_details_try_def df_select_eq_def df_empty_def)
  then show "get_podcast_details w client_id =
             (Inr [(''name'', PStr (''Podcast '' @ py_str client_id)), (''image'', PStr ''''),
                   (''summary'', PStr ''No details available''), (''categories'', PStr ''''),
                   (''youtube_id'', PStr ''''), (''spotify_id'', PStr ''''),
                   (''website_name'', PStr ''''), (''rss_feed'', PStr '''')], w)"
    by (simp add: get_podcast_details_def details_placeholder_def)
next
  assume a: "read_csv w ''pods_stats.csv'' = Inr stats_df \<and> ''clientId'' \<in> set (df_columns stats_df)
        \<and> (\<forall>row \<in> set (df_rows stats_df). \<not> cell_eq row ''clientId'' client_id)"
  then have "filter (\<lambda>row. cell_eq row ''clientId'' client_id) (df_rows stats_df) = []"
    by (simp add: filter_empty_conv)
  with a have "get_podcast_stats_try w client_id = Inr stats_placeholder"
    by (simp add: get_podcast_stats_try_def df_select_eq_def df_empty_def)
  then show "get_podcast_stats w client_id =
             (Inr [(''min_impressions'', PInt 0), (''max_impressions'', PInt 0),
                   (''youtube_subscribers'', PInt 0), (''instagram_followers'', PInt 0),
                   (''episode_avg_views'', PInt 0), (''estimated_ad_price'', PStr ''N/A'')], w)"
    by (simp add: get_podcast_stats_def stats_placeholder_def)
next
  assume "get_podcast_details_try w' client_id = Inl e"
  then show "fst (get_podcast_details w' client_id) =
             Inr [(''name'', PStr (''Podcast '' @ py_str client_id)), (''image'', PStr ''''),
                  (''summary'', PStr ''Error loading details''), (''categories'', PStr ''''),
                  (''youtube_id'', PStr ''''), (''spotify_id'', PStr ''''),
                  (''website_name'', PStr ''''), (''rss_feed'', PStr '''')]"
    by (simp add: get_podcast_details_def details_placeholder_def)
next
  assume "get_podcast_stats_try w' client_id = Inl e'"
  then show "fst (get_podcast_stats w' client_id) =
             Inr [(''min_impressions'', PInt 0), (''max_impressions'', PInt 0),
                  (''youtube_subscribers'', PInt 0), (''instagram_followers'', PInt 0),
                  (''episode_avg_views'', PInt 0), (''estimated_ad_price'', PStr ''N/A'')]"
    by (simp add: get_podcast_stats_def stats_placeholder_def)
next
  assume "read_csv w' ''0_pods.csv'' = Inl e"
  then show "get_podcast_details_try w' client_id = Inl e"
    by (simp add: get_podcast_details_try_def)
next
  assume "read_csv w' ''pods_stats.csv'' = Inl e'"
  then show "get_podcast_stats_try w' client_id = Inl e'"
    by (simp add: get_podcast_stats_try_def)
qed

theorem lookups_never_raise_witness:
  "read_csv example_world ''0_pods.csv'' = Inr example_pods
   \<and> ''id'' \<in> set (df_columns example_pods)
   \<and> list_all (\<lambda>row. \<not> cell_eq row ''id'' (PStr ''zz'')) (df_rows example_pods)
   \<and> get_podcast_details example_world (PStr ''zz'') =
         (Inr [(''name'', PStr ''Podcast zz''), (''image'', PStr ''''),
               (''summary'', PStr ''No details available''), (''categories'', PStr ''''),
               (''youtube_id'', PStr ''''), (''spotify_id'', PStr ''''),
               (''website_name'', PStr ''''), (''rss_feed'', PStr '''')], example_world)
   \<and> read_csv example_world ''pods_stats.csv'' = Inr example_stats
   \<and> ''clientId'' \<in> set (df_columns example_stats)
   \<and> list_all (\<lambda>row. \<not> cell_eq row ''clientId'' (PStr ''zz'')) (df_rows example_stats)
   \<and> get_podcast_stats example_world (PStr ''zz'') =
         (Inr [(''min_impressions'', PInt 0), (''max_impressions'', PInt 0),
               (''youtube_subscribers'', PInt 0), (''instagram_followers'', PInt 0),
               (''episode_avg_views'', PInt 0), (''estimated_ad_price'', PStr ''N/A'')],
          example_world)
   \<and> read_csv example_world_no_files ''0_pods.csv'' = Inl (OSError ''No such file or directory'')
   \<and> fst (get_podcast_details example_world_no_files (PStr ''zz'')) =
         Inr [(''name'', PStr ''Podcast zz''), (''image'', PStr ''''),
              (''summary'', PStr ''Error loading details''), (''categories'', PStr ''''),
              (''youtube_id'', PStr ''''), (''spotify_id'', PStr ''''),
              (''website_name'', PStr ''''), (''rss_feed'', PStr '''')]
   \<and> read_csv example_world_no_files ''pods_stats.csv'' = Inl (OSError ''No such file or directory'')
   \<and> fst (get_podcast_stats example_world_no_files (PStr ''zz'')) =
         Inr [(''min_impressions'', PInt 0), (''max_impressions'', PInt 0),
              (''youtube_subscribers'', PInt 0), (''instagram_followers'', PInt 0),
              (''episode_avg_views'', PInt 0), (''estimated_ad_price'', PStr ''N/A'')]"
proof -
  have a: "read_csv example_world ''0_pods.csv'' = Inr example_pods
           \<and> ''id'' \<in> set (df_columns example_pods)
           \<and> (\<forall>row \<in> set (df_rows example_pods). \<not> cell_eq row ''id'' (PStr ''zz''))"
    by (simp add: example_world_def example_pods_def cell_eq_def)
  have b: "read_csv example_world ''pods_stats.csv'' = Inr example_stats
           \<and> ''clientId'' \<in> set (df_columns example_stats)
           \<and> (\<forall>row \<in> set (df_rows example_stats). \<not> cell_eq row ''clientId'' (PStr ''zz''))"
    by (simp add: example_world_def example_stats_def cell_eq_def)
  have c: "read_csv example_world_no_files ''0_pods.csv'' = Inl (OSError ''No such file or directory'')"
          "read_csv example_world_no_files ''pods_stats.csv'' = Inl (OSError ''No such file or directory'')"
    by (simp_all add: example_world_no_files_def)
  show ?thesis
    using a b c
      lookups_never_raise[of example_world "PStr ''zz''" example_pods example_stats
        example_world_no_files "OSError ''No such file or directory''"
        "OSError ''No such file or directory''"]
    by (simp add: list_all_iff)
qed

text \<open>
  C7: no operation changes the two tables or any other persistent state. After each of
  the five functions the world is the one before the call but for standard output and
  the record of requests sent; in particular what \<open>pd.read_csv\<close> reads and the vector
  store are the same before and after.
\<close>

theorem tables_never_mutated:
  "(\<exists>out. snd (get_podcast_details w client_id) = w\<lparr>stdout := out\<rparr>)
   \<and> (\<exists>out. snd (get_podcast_stats w client_id) = w\<lparr>stdout := out\<rparr>)
   \<and> (\<exists>out. snd (get_enhanced_podcast_results w vector_results) = w\<lparr>stdout := out\<rparr>)
   \<and> (\<exists>out reqs. snd (get_required_podcast_details_for_brand w brand_details)
                    = w\<lparr>stdout := out, llm_requests := reqs\<rparr>)
   \<and> (\<exists>out reqs. snd (search_for_podcasts w brand_details)
                    = w\<lparr>stdout := out, llm_requests := reqs\<rparr>)
   \<and> read_csv (snd (get_podcast_details w client_id)) = read_csv w
   \<and> read_csv (snd (get_podcast_stats w client_id)) = read_csv w
   \<and> read_csv (snd (search_for_podcasts w brand_details)) = read_csv w
   \<and> chroma (snd (search_for_podcasts w brand_details)) = chroma w"
proof -
  obtain o1 where f1: "snd (get_podcast_details w client_id) = w\<lparr>stdout := o1\<rparr>"
    using details_frame by blast
  obtain o2 where f2: "snd (get_podcast_stats w client_id) = w\<lparr>stdout := o2\<rparr>"
    using stats_frame by blast
  obtain rs o3 where f3: "get_enhanced_podcast_results w vector_results = (Inr rs, w\<lparr>stdout := o3\<rparr>)"
    using enhanced_spec by blast
  obtain o4 q4 where f4: "snd (get_required_podcast_details_for_brand w brand_details)
                          = w\<lparr>stdout := o4, llm_requests := q4\<rparr>"
    using required_frame by blast
  obtain o5 q5 where f5: "snd (search_for_podcasts w brand_details)
                          = w\<lparr>stdout := o5, llm_requests := q5\<rparr>"
    using search_frame by blast
  have f3': "snd (get_enhanced_podcast_results w vector_results) = w\<lparr>stdout := o3\<rparr>"
    using f3 by simp
  show ?thesis
    unfolding f1 f2 f3' f4 f5 by (intro conjI exI) simp_all
qed




text \<open>
  C5: for every list of hits, \<open>get_enhanced_podcast_results\<close> returns exactly one merged
  dictionary per hit, in the order of the hits; each carries the score, the page content
  and the metadata of its hit unchanged, together with the entries of
  \<open>get_podcast_details\<close> and \<open>get_podcast_stats\<close> for the identifier of the hit.
  \<open>search_for_podcasts\<close> queries the store with \<open>k = 5\<close> and returns the merged
  dictionaries of the answer, so at most five when the store answers with at most
  \<open>k\<close> hits.
\<close>

theorem enhanced_results_one_per_hit:
  "(\<exists>rs. fst (get_enhanced_podcast_results w vector_results) = Inr rs
         \<and> length rs = length vector_results
         \<and> list_all2 (merged w) vector_results rs)
   \<and> (fst (get_required_podcast_details_for_brand w brand_details) = Inr query
        \<and> chroma w = Inr similarity_search_with_score
        \<and> similarity_search_with_score query 5 = Inr vs
        \<and> length vs \<le> 5
       \<longrightarrow> (\<exists>results.
              fst (search_for_podcasts w brand_details) = Inr results
              \<and> list_all2 (merged w) vs results
              \<and> length results \<le> 5))"
proof (intro conjI impI)
  obtain rs out where e: "get_enhanced_podcast_results w vector_results = (Inr rs, w\<lparr>stdout := out\<rparr>)"
    "list_all2 (merged w) vector_results rs"
    using enhanced_spec by blast
  show "\<exists>rs. fst (get_enhanced_podcast_results w vector_results) = Inr rs
         \<and> length rs = length vector_results
         \<and> list_all2 (merged w) vector_results rs"
    using e list_all2_lengthD[OF e(2)] by simp
next
  assume a: "fst (get_required_podcast_details_for_brand w brand_details) = Inr query
        \<and> chroma w = Inr similarity_search_with_score
        \<and> similarity_search_with_score query 5 = Inr vs
        \<and> length vs \<le> 5"
  then obtain rs where v: "fst (search_for_podcasts w brand_details) = Inr rs"
     "list_all2 (merged w) vs rs"
    using search_total[of w brand_details query similarity_search_with_score vs] by auto
  have "length rs \<le> 5" using a list_all2_lengthD[OF v(2)] by simp
  with v show "\<exists>results.
              fst (search_for_podcasts w brand_details) = Inr results
              \<and> list_all2 (merged w) vs results
              \<and> length results \<le> 5"
    by (intro exI[of _ rs] conjI)
qed

theorem enhanced_results_one_per_hit_witness:
  "fst (get_required_podcast_details_for_brand example_world ''vimergy.com'')
     = Inr (JString ''A weekly show about gut health'')
   \<and> chroma example_world = Inr example_store
   \<and> example_store (JString ''A weekly show about gut health'') 5 = Inr example_hits
   \<and> length example_hits \<le> 5
   \<and> fst (search_for_podcasts example_world ''vimergy.com'') = Inr example_results
   \<and> length example_results = 2"
proof -
  have a: "fst (get_required_podcast_details_for_brand example_world ''vimergy.com'')
     = Inr (JString ''A weekly show about gut health'')" by (rule ex_required)
  have b: "chroma example_world = Inr example_store" by (simp add: example_world_def)
  have c: "example_store (JString ''A weekly show about gut health'') 5 = Inr example_hits"
    by (rule ex_store5)
  have d: "length example_hits \<le> 5" by (simp add: example_hits_def)
  from enhanced_results_one_per_hit[of example_world example_hits "''vimergy.com''"
        "JString ''A weekly show about gut health''" example_store example_hits] a b c d
  obtain results where r: "fst (search_for_podcasts example_world ''vimergy.com'') = Inr results"
     "list_all2 (merged example_world) example_hits results"
    by blast
  have e: "fst (search_for_podcasts example_world ''vimergy.com'') = Inr example_results"
    using r(1) ex_merged[OF r(2)] by simp
  have f: "length example_results = 2" by (simp add: example_results_def)
  from a b c d e f show ?thesis by (intro conjI)
qed

text \<open>
  C9, as amended: the identifier of a hit is the value of \<open>pod_id\<close> in its metadata if
  present, else that of \<open>clientId\<close>, else that of \<open>id\<close>, else the string \<open>unknown\<close>, and
  both lookups of the hit are made with it. When all three keys are absent the lookups
  are made with \<open>unknown\<close>, and they give the placeholder records unless the table read
  holds a row whose key is \<open>unknown\<close>.
\<close>

theorem pod_id_fallback_chain:
  "extract_pod_id md =
     (case map_of md ''pod_id'' of
        Some v \<Rightarrow> v
      | None \<Rightarrow> (case map_of md ''clientId'' of
                   Some v \<Rightarrow> v
                 | None \<Rightarrow> (case map_of md ''id'' of
                              Some v \<Rightarrow> v
                            | None \<Rightarrow> PStr ''unknown'')))
   \<and> (\<exists>rs. fst (get_enhanced_podcast_results w vector_results) = Inr rs
          \<and> list_all2 (\<lambda>hit r. map_of r ''pod_id'' = Some (Val (extract_pod_id (metadata (fst hit))))
                               \<and> merged w hit r) vector_results rs)
   \<and> (map_of (metadata doc) ''pod_id'' = None
        \<and> map_of (metadata doc) ''clientId'' = None
        \<and> map_of (metadata doc) ''id'' = None
        \<and> \<not> has_key w ''0_pods.csv'' ''id'' (PStr ''unknown'')
        \<and> \<not> has_key w ''pods_stats.csv'' ''clientId'' (PStr ''unknown'')
       \<longrightarrow> (\<exists>summary.
              (summary = ''No details available'' \<or> summary = ''Error loading details'')
              \<and> fst (get_enhanced_podcast_results w [(doc, score)]) =
                  Inr [[(''pod_id'', Val (PStr ''unknown'')),
                        (''similarity_score'', Score score),
                        (''content'', Content (page_content doc)),
                        (''metadata'', Metadata (metadata doc))]
                       @ map (\<lambda>(k, v). (k, Val v))
                           (details_placeholder (PStr ''unknown'') summary @ stats_placeholder)]))"
proof (intro conjI impI)
  show "extract_pod_id md =
     (case map_of md ''pod_id'' of
        Some v \<Rightarrow> v
      | None \<Rightarrow> (case map_of md ''clientId'' of
                   Some v \<Rightarrow> v
                 | None \<Rightarrow> (case map_of md ''id'' of
                              Some v \<Rightarrow> v
                            | None \<Rightarrow> PStr ''unknown'')))"
    by (simp add: extract_pod_id_def dict_get_def split: option.splits)
next
  obtain rs out where e: "get_enhanced_podcast_results w vector_results = (Inr rs, w\<lparr>stdout := out\<rparr>)"
    "list_all2 (merged w) vector_results rs"
    using enhanced_spec by blast
  have "list_all2 (\<lambda>hit r. map_of r ''pod_id'' = Some (Val (extract_pod_id (metadata (fst hit))))
                               \<and> merged w hit r) vector_results rs"
    using e(2) by (rule list_all2_mono) (simp add: merged_pod_id)
  with e(1) show "\<exists>rs. fst (get_enhanced_podcast_results w vector_results) = Inr rs
          \<and> list_all2 (\<lambda>hit r. map_of r ''pod_id'' = Some (Val (extract_pod_id (metadata (fst hit))))
                               \<and> merged w hit r) vector_results rs"
    by (intro exI[of _ rs]) simp
next
  assume a: "map_of (metadata doc) ''pod_id'' = None
        \<and> map_of (metadata doc) ''clientId'' = None
        \<and> map_of (metadata doc) ''id'' = None
        \<and> \<not> has_key w ''0_pods.csv'' ''id'' (PStr ''unknown'')
        \<and> \<not> has_key w ''pods_stats.csv'' ''clientId'' (PStr ''unknown'')"
  then have p: "extract_pod_id (metadata doc) = PStr ''unknown''"
    by (simp add: extract_pod_id_def dict_get_def)
  obtain rs out where e: "get_enhanced_podcast_results w [(doc, score)] = (Inr rs, w\<lparr>stdout := out\<rparr>)"
    "list_all2 (merged w) [(doc, score)] rs"
    using enhanced_spec by blast
  from e(2) obtain r where r: "rs = [r]" "merged w (doc, score) r"
    by (auto simp: list_all2_Cons1)
  from a have s: "fst (get_podcast_stats w (PStr ''unknown'')) = Inr stats_placeholder"
    using stats_without_key by blast
  from a obtain summary where d:
    "summary = ''No details available'' \<or> summary = ''Error loading details''"
    "fst (get_podcast_details w (PStr ''unknown'')) = Inr (details_placeholder (PStr ''unknown'') summary)"
    using details_without_key[of w "PStr ''unknown''"] by blast
  have "r = [(''pod_id'', Val (PStr ''unknown'')),
                        (''similarity_score'', Score score),
                        (''content'', Content (page_content doc)),
                        (''metadata'', Metadata (metadata doc))]
                       @ map (\<lambda>(k, v). (k, Val v))
                           (details_placeholder (PStr ''unknown'') summary @ stats_placeholder)"
    using r(2) s d(2) by (simp add: merged_def p)
  with e(1) r(1) d(1) show "\<exists>summary.
              (summary = ''No details available'' \<or> summary = ''Error loading details'')
              \<and> fst (get_enhanced_podcast_results w [(doc, score)]) =
                  Inr [[(''pod_id'', Val (PStr ''unknown'')),
                        (''similarity_score'', Score score),
                        (''content'', Content (page_content doc)),
                        (''metadata'', Metadata (metadata doc))]
                       @ map (\<lambda>(k, v). (k, Val v))
                           (details_placeholder (PStr ''unknown'') summary @ stats_placeholder)]"
    by (intro exI[of _ summary]) simp
qed

theorem pod_id_fallback_chain_witness:
  "map_of [(''source'', PStr ''import'')] ''pod_id'' = None
   \<and> map_of [(''source'', PStr ''import'')] ''clientId'' = None
   \<and> map_of [(''source'', PStr ''import'')] ''id'' = None
   \<and> \<not> has_key example_world ''0_pods.csv'' ''id'' (PStr ''unknown'')
   \<and> \<not> has_key example_world ''pods_stats.csv'' ''clientId'' (PStr ''unknown'')
   \<and> extract_pod_id [(''clientId'', PInt 7), (''id'', PStr ''x'')] = PInt 7
   \<and> fst (get_enhanced_podcast_results example_world
            [(\<lparr>page_content = ''A show about running'',
               metadata = [(''source'', PStr ''import'')]\<rparr>, 35 / 100)]) =
       Inr [[(''pod_id'', Val (PStr ''unknown'')),
             (''similarity_score'', Score (35 / 100)),
             (''content'', Content ''A show about running''),
             (''metadata'', Metadata [(''source'', PStr ''import'')]),
             (''name'', Val (PStr ''Podcast unknown'')),
             (''image'', Val (PStr '''')),
             (''summary'', Val (PStr ''No details available'')),
             (''categories'', Val (PStr '''')),
             (''youtube_id'', Val (PStr '''')),
             (''spotify_id'', Val (PStr '''')),
             (''website_name'', Val (PStr '''')),
             (''rss_feed'', Val (PStr '''')),
             (''min_impressions'', Val (PInt 0)),
             (''max_impressions'', Val (PInt 0)),
             (''youtube_subscribers'', Val (PInt 0)),
             (''instagram_followers'', Val (PInt 0)),
             (''episode_avg_views'', Val (PInt 0)),
             (''estimated_ad_price'', Val (PStr ''N/A''))]]"
proof -
  define doc where "doc = \<lparr>page_content = ''A show about running'',
               metadata = [(''source'', PStr ''import'')]\<rparr>"
  have m: "map_of (metadata doc) ''pod_id'' = None" "map_of (metadata doc) ''clientId'' = None"
    "map_of (metadata doc) ''id'' = None"
    by (simp_all add: doc_def)
  note t = pod_id_fallback_chain[of "[(''clientId'', PInt 7), (''id'', PStr ''x'')]"
      example_world "[]" doc "35 / 100"]
  from t have 1: "extract_pod_id [(''clientId'', PInt 7), (''id'', PStr ''x'')] = PInt 7"
    by simp
  from t m ex_no_unknown_key obtain summary where
    s: "fst (get_enhanced_podcast_results example_world [(doc, 35 / 100)]) =
                  Inr [[(''pod_id'', Val (PStr ''unknown'')),
                        (''similarity_score'', Score (35 / 100)),
                        (''content'', Content (page_content doc)),
                        (''metadata'', Metadata (metadata doc))]
                       @ map (\<lambda>(k, v). (k, Val v))
                           (details_placeholder (PStr ''unknown'') summary @ stats_placeholder)]"
    by blast
  obtain rs out where e: "get_enhanced_podcast_results example_world [(doc, 35 / 100)]
        = (Inr rs, example_world\<lparr>stdout := out\<rparr>)"
    "list_all2 (merged example_world) [(doc, 35 / 100)] rs"
    using enhanced_spec by blast
  have p: "extract_pod_id (metadata doc) = PStr ''unknown''"
    by (simp add: extract_pod_id_def dict_get_def doc_def)
  from e(2) have "rs = [[(''pod_id'', Val (PStr ''unknown'')),
                        (''similarity_score'', Score (35 / 100)),
                        (''content'', Content (page_content doc)),
                        (''metadata'', Metadata (metadata doc))]
                       @ map (\<lambda>(k, v). (k, Val v))
                           (details_placeholder (PStr ''unknown'') ''No details available''
                            @ stats_placeholder)]"
    by (auto simp: list_all2_Cons1 merged_def p ex_details_unknown ex_stats_unknown)
  with e(1) s have 2: "fst (get_enhanced_podcast_results example_world [(doc, 35 / 100)]) =
       Inr [[(''pod_id'', Val (PStr ''unknown'')),
             (''similarity_score'', Score (35 / 100)),
             (''content'', Content ''A show about running''),
             (''metadata'', Metadata [(''source'', PStr ''import'')]),
             (''name'', Val (PStr ''Podcast unknown'')),
             (''image'', Val (PStr '''')),
             (''summary'', Val (PStr ''No details available'')),
             (''categories'', Val (PStr '''')),
             (''youtube_id'', Val (PStr '''')),
             (''spotify_id'', Val (PStr '''')),
             (''website_name'', Val (PStr '''')),
             (''rss_feed'', Val (PStr '''')),
             (''min_impressions'', Val (PInt 0)),
             (''max_impressions'', Val (PInt 0)),
             (''youtube_subscribers'', Val (PInt 0)),
             (''instagram_followers'', Val (PInt 0)),
             (''episode_avg_views'', Val (PInt 0)),
             (''estimated_ad_price'', Val (PStr ''N/A''))]]"
    by (simp add: details_placeholder_def stats_placeholder_def doc_def)
  show ?thesis
    using m ex_no_unknown_key 1 2 unfolding doc_def by simp
qed

text \<open>
  C9 as stated fails: the metadata has none of the three keys, the tables hold a row
  with the key \<open>unknown\<close>, and the lookups return that row, not the placeholder records.
\<close>

theorem unknown_key_row_counterexample:
  "map_of [(''source'', PStr ''import'')] ''pod_id'' = None
   \<and> map_of [(''source'', PStr ''import'')] ''clientId'' = None
   \<and> map_of [(''source'', PStr ''import'')] ''id'' = None
   \<and> fst (get_enhanced_podcast_results example_world_unknown_row
            [(\<lparr>page_content = ''A show about running'',
               metadata = [(''source'', PStr ''import'')]\<rparr>, 35 / 100)]) =
       Inr [[(''pod_id'', Val (PStr ''unknown'')),
             (''similarity_score'', Score (35 / 100)),
             (''content'', Content ''A show about running''),
             (''metadata'', Metadata [(''source'', PStr ''import'')]),
             (''name'', Val (PStr ''The Unknown Show'')),
             (''image'', Val (PStr '''')),
             (''summary'', Val (PStr '''')),
             (''categories'', Val (PStr '''')),
             (''youtube_id'', Val (PStr '''')),
             (''spotify_id'', Val (PStr '''')),
             (''website_name'', Val (PStr '''')),
             (''rss_feed'', Val (PStr '''')),
             (''min_impressions'', Val (PInt 700)),
             (''max_impressions'', Val (PInt 0)),
             (''youtube_subscribers'', Val (PInt 0)),
             (''instagram_followers'', Val (PInt 0)),
             (''episode_avg_views'', Val (PInt 0)),
             (''estimated_ad_price'', Val (PStr ''N/A''))]]
   \<and> fst (get_podcast_details example_world_unknown_row (PStr ''unknown''))
       \<noteq> Inr (details_placeholder (PStr ''unknown'') ''No details available'')
   \<and> fst (get_podcast_details example_world_unknown_row (PStr ''unknown''))
       \<noteq> Inr (details_placeholder (PStr ''unknown'') ''Error loading details'')
   \<and> fst (get_podcast_stats example_world_unknown_row (PStr ''unknown'')) \<noteq> Inr stats_placeholder"
proof -
  define doc where "doc = \<lparr>page_content = ''A show about running'',
               metadata = [(''source'', PStr ''import'')]\<rparr>"
  obtain rs out where e: "get_enhanced_podcast_results example_world_unknown_row [(doc, 35 / 100)]
        = (Inr rs, example_world_unknown_row\<lparr>stdout := out\<rparr>)"
    "list_all2 (merged example_world_unknown_row) [(doc, 35 / 100)] rs"
    using enhanced_spec by blast
  have p: "extract_pod_id (metadata doc) = PStr ''unknown''"
    by (simp add: extract_pod_id_def dict_get_def doc_def)
  from e(2) have "rs = [[(''pod_id'', Val (PStr ''unknown'')),
             (''similarity_score'', Score (35 / 100)),
             (''content'', Content (page_content doc)),
             (''metadata'', Metadata (metadata doc)),
             (''name'', Val (PStr ''The Unknown Show'')),
             (''image'', Val (PStr '''')),
             (''summary'', Val (PStr '''')),
             (''categories'', Val (PStr '''')),
             (''youtube_id'', Val (PStr '''')),
             (''spotify_id'', Val (PStr '''')),
             (''website_name'', Val (PStr '''')),
             (''rss_feed'', Val (PStr '''')),
             (''min_impressions'', Val (PInt 700)),
             (''max_impressions'', Val (PInt 0)),
             (''youtube_subscribers'', Val (PInt 0)),
             (''instagram_followers'', Val (PInt 0)),
             (''episode_avg_views'', Val (PInt 0)),
             (''estimated_ad_price'', Val (PStr ''N/A''))]]"
    by (auto simp: list_all2_Cons1 merged_def p ex_unknown_row_details ex_unknown_row_stats)
  with e(1) show ?thesis
    unfolding doc_def
    by (simp add: ex_unknown_row_details ex_unknown_row_stats details_placeholder_def
          stats_placeholder_def)
qed

section \<open>The request to the language model\<close>

lemma required_requests:
  "llm_requests (snd (get_required_podcast_details_for_brand w bd))
   = llm_requests w @ [\<lparr>model = ''gpt-4o'', input = prompt bd, temperature = 0\<rparr>]"
  by (simp add: get_required_podcast_details_for_brand_def Let_def print_def split: sum.splits)

lemma enhanced_requests:
  "llm_requests (snd (get_enhanced_podcast_results w hits)) = llm_requests w"
proof -
  obtain rs out where "get_enhanced_podcast_results w hits = (Inr rs, w\<lparr>stdout := out\<rparr>)"
    using enhanced_spec by blast
  then show ?thesis by simp
qed

lemma search_requests:
  "llm_requests (snd (search_for_podcasts w bd))
   = llm_requests w @ [\<lparr>model = ''gpt-4o'', input = prompt bd, temperature = 0\<rparr>]"
proof -
  obtain r1 w1 where g: "get_required_podcast_details_for_brand w bd = (r1, w1)" by fastforce
  then have w1: "llm_requests w1 = llm_requests w @ [\<lparr>model = ''gpt-4o'', input = prompt bd, temperature = 0\<rparr>]"
    using required_requests[of w bd] by simp
  show ?thesis
  proof (cases r1)
    case (Inl e)
    then show ?thesis using g w1 by (simp add: search_for_podcasts_def)
  next
    case (Inr q)
    note r1 = this
    show ?thesis
    proof (cases "chroma w1")
      case (Inl e)
      then show ?thesis using g w1 r1 by (simp add: search_for_podcasts_def load_podcasts_vector_db_def)
    next
      case (Inr db)
      note db = this
      show ?thesis
      proof (cases "db q 5")
        case (Inl e)
        then show ?thesis using g w1 r1 db
          by (simp add: search_for_podcasts_def load_podcasts_vector_db_def)
      next
        case (Inr vs)
        obtain rs out where e: "get_enhanced_podcast_results w1 vs = (Inr rs, w1\<lparr>stdout := out\<rparr>)"
          using enhanced_spec by blast
        show ?thesis
          using g r1 db Inr e w1
          by (simp add: search_for_podcasts_def load_podcasts_vector_db_def print_def)
      qed
    qed
  qed
qed

lemma prompt_split:
  "prompt b =
     ([CHR 0x0A] @ concat (map (\<lambda>l. l @ [CHR 0x0A]) (take 25 prompt_lines)))
     @ category_list
     @ ([CHR 0x0A] @ concat (map (\<lambda>l. l @ [CHR 0x0A]) (drop 46 prompt_lines)) @ b @ [CHR 0x0A])"
  by (simp add: prompt_def prompt_lines_def category_list_def)

lemma required_raises:
  assumes "responses_create w \<lparr>model = ''gpt-4o'', input = prompt bd, temperature = 0\<rparr> = Inl e"
  shows "fst (get_required_podcast_details_for_brand w bd) = Inl e"
  using assms by (simp add: get_required_podcast_details_for_brand_def Let_def)

lemma prompt_length: "length (prompt b) = 2517 + length b"
  by (simp add: prompt_def prompt_lines_def)

lemma prompt_first_line:
  "prefix ([CHR 0x0A]
           @ ''You are an expert assistant helping brands find the most suitable podcasts to advertise on.''
           @ [CHR 0x0A]) (prompt b)"
  by (simp add: prompt_def prompt_lines_def)

lemma prompt_last_lines:
  "suffix ('' Brand Details:'' @ [CHR 0x0A] @ b @ [CHR 0x0A]) (prompt b)"
proof -
  have "prompt b = ([CHR 0x0A] @ concat (map (\<lambda>l. l @ [CHR 0x0A]) (butlast prompt_lines))
                    @ take 4 (last prompt_lines)) @ ('' Brand Details:'' @ [CHR 0x0A] @ b @ [CHR 0x0A])"
    by (simp add: prompt_def prompt_lines_def)
  then show ?thesis unfolding suffix_def by (intro exI)
qed

lemma ex_one_request:
  \<open>responses_create example_world_one_request
      \<lparr>model = ''gpt-4o'', input = prompt ''vimergy.com'', temperature = 0\<rparr>
    = Inr ''{"podcast_details_string": "A weekly show about gut health"}''\<close>
  \<open>responses_create example_world_one_request
      \<lparr>model = ''gpt-3.5-turbo'', input = prompt ''vimergy.com'', temperature = 0\<rparr>
    = Inl (APIError ''unexpected request'')\<close>
  \<open>responses_create example_world_one_request
      \<lparr>model = ''gpt-4o'', input = prompt ''vimergy.com'', temperature = 1\<rparr>
    = Inl (APIError ''unexpected request'')\<close>
  \<open>responses_create example_world_one_request
      \<lparr>model = ''gpt-4o'', input = ''vimergy.com'', temperature = 0\<rparr>
    = Inl (APIError ''unexpected request'')\<close>
  "recursion_limit example_world_one_request = 1000"
  "int_max_str_digits example_world_one_request = 4300"
     apply (simp_all add: example_world_one_request_def example_world_def)
  using prompt_length[of "''vimergy.com''"] apply auto
  done


lemma ex_api_error:
  \<open>responses_create example_world_api_error
      \<lparr>model = ''gpt-4o'', input = prompt ''vimergy.com'', temperature = 0\<rparr>
    = Inl (APIError ''rate limit exceeded'')\<close>
  by (simp add: example_world_api_error_def)

lemma required_result:
  assumes "responses_create w \<lparr>model = ''gpt-4o'', input = prompt bd, temperature = 0\<rparr> = Inr t"
  shows "fst (get_required_podcast_details_for_brand w bd) =
         (case bind_exn (json_loads (recursion_limit w) (int_max_str_digits w) (raw_output t))
                 (\<lambda>j. json_getitem j ''podcast_details_string'') of
            Inr v \<Rightarrow> Inr v
          | Inl e \<Rightarrow> Inr (JString []))"
  using assms
  by (simp add: get_required_podcast_details_for_brand_def Let_def split: sum.splits)

lemma required_same_answer:
  assumes "responses_create w' \<lparr>model = ''gpt-4o'', input = prompt bd, temperature = 0\<rparr>
           = responses_create w \<lparr>model = ''gpt-4o'', input = prompt bd, temperature = 0\<rparr>"
    and "recursion_limit w' = recursion_limit w"
    and "int_max_str_digits w' = int_max_str_digits w"
  shows "fst (get_required_podcast_details_for_brand w' bd)
         = fst (get_required_podcast_details_for_brand w bd)"
proof (cases "responses_create w \<lparr>model = ''gpt-4o'', input = prompt bd, temperature = 0\<rparr>")
  case (Inl e)
  then show ?thesis using assms(1) by (simp add: required_raises)
next
  case (Inr t)
  then show ?thesis using assms by (simp add: required_result)
qed


text \<open>
  C6: every call of \<open>get_required_podcast_details_for_brand\<close> sends exactly one request
  to the language model: the model \<open>gpt-4o\<close>, temperature zero, and as input the prompt.
  The function raises what the model raises at that request and otherwise returns what
  it reads in the text answered to that request; the answers to other requests have no
  influence. The prompt is the fixed text of the template followed by the text of
  \<open>brand_details\<close> and a line break: 2517 bytes besides \<open>brand_details\<close>, from the line
  \<open>You are an expert assistant\<close> to the line \<open>Brand Details:\<close>. \<open>search_for_podcasts\<close>
  sends that one request and no other; the lookups and the merge send none.
\<close>

theorem llm_request_fixed:
  "llm_requests (snd (get_required_podcast_details_for_brand w brand_details))
     = llm_requests w @ [\<lparr>model = ''gpt-4o'', input = prompt brand_details, temperature = 0\<rparr>]
   \<and> (responses_create w \<lparr>model = ''gpt-4o'', input = prompt brand_details, temperature = 0\<rparr> = Inl e
      \<longrightarrow> fst (get_required_podcast_details_for_brand w brand_details) = Inl e)
   \<and> (responses_create w \<lparr>model = ''gpt-4o'', input = prompt brand_details, temperature = 0\<rparr>
        = Inr output_text
      \<longrightarrow> fst (get_required_podcast_details_for_brand w brand_details)
          = (case bind_exn (json_loads (recursion_limit w) (int_max_str_digits w) (raw_output output_text))
                    (\<lambda>j. json_getitem j ''podcast_details_string'') of
               Inr v \<Rightarrow> Inr v
             | Inl e \<Rightarrow> Inr (JString [])))
   \<and> (responses_create w' \<lparr>model = ''gpt-4o'', input = prompt brand_details, temperature = 0\<rparr>
        = responses_create w \<lparr>model = ''gpt-4o'', input = prompt brand_details, temperature = 0\<rparr>
      \<and> recursion_limit w' = recursion_limit w
      \<and> int_max_str_digits w' = int_max_str_digits w
      \<longrightarrow> fst (get_required_podcast_details_for_brand w' brand_details)
          = fst (get_required_podcast_details_for_brand w brand_details))
   \<and> prompt brand_details
       = ([CHR 0x0A] @ concat (map (\<lambda>l. l @ [CHR 0x0A]) prompt_lines)) @ brand_details @ [CHR 0x0A]
   \<and> length (prompt brand_details) = 2517 + length brand_details
   \<and> prefix ([CHR 0x0A]
        @ ''You are an expert assistant helping brands find the most suitable podcasts to advertise on.''
        @ [CHR 0x0A]) (prompt brand_details)
   \<and> suffix ('' Brand Details:'' @ [CHR 0x0A] @ brand_details @ [CHR 0x0A]) (prompt brand_details)
   \<and> llm_requests (snd (search_for_podcasts w brand_details))
     = llm_requests w @ [\<lparr>model = ''gpt-4o'', input = prompt brand_details, temperature = 0\<rparr>]
   \<and> llm_requests (snd (get_podcast_details w client_id)) = llm_requests w
   \<and> llm_requests (snd (get_podcast_stats w client_id)) = llm_requests w
   \<and> llm_requests (snd (get_enhanced_podcast_results w vector_results)) = llm_requests w"
proof -
  obtain o1 where f1: "snd (get_podcast_details w client_id) = w\<lparr>stdout := o1\<rparr>"
    using details_frame by blast
  obtain o2 where f2: "snd (get_podcast_stats w client_id) = w\<lparr>stdout := o2\<rparr>"
    using stats_frame by blast
  have c1: "llm_requests (snd (get_podcast_details w client_id)) = llm_requests w"
    by (simp add: f1)
  have c2: "llm_requests (snd (get_podcast_stats w client_id)) = llm_requests w"
    by (simp add: f2)
  have p: "prompt brand_details
       = ([CHR 0x0A] @ concat (map (\<lambda>l. l @ [CHR 0x0A]) prompt_lines)) @ brand_details @ [CHR 0x0A]"
    by (simp add: prompt_def)
  show ?thesis
    using required_requests[of w brand_details] required_raises[of w brand_details e]
      required_result[of w brand_details output_text]
      required_same_answer[of w' brand_details w] p prompt_length[of brand_details]
      prompt_first_line[of brand_details] prompt_last_lines[of brand_details]
      search_requests[of w brand_details] c1 c2 enhanced_requests[of w vector_results]
    by (intro conjI impI) blast+
qed

theorem llm_request_fixed_witness:
  \<open>responses_create example_world_one_request
      \<lparr>model = ''gpt-4o'', input = prompt ''vimergy.com'', temperature = 0\<rparr>
     = Inr ''{"podcast_details_string": "A weekly show about gut health"}''
   \<and> responses_create example_world_one_request
      \<lparr>model = ''gpt-3.5-turbo'', input = prompt ''vimergy.com'', temperature = 0\<rparr>
     = Inl (APIError ''unexpected request'')
   \<and> responses_create example_world_one_request
      \<lparr>model = ''gpt-4o'', input = prompt ''vimergy.com'', temperature = 1\<rparr>
     = Inl (APIError ''unexpected request'')
   \<and> responses_create example_world_one_request
      \<lparr>model = ''gpt-4o'', input = ''vimergy.com'', temperature = 0\<rparr>
     = Inl (APIError ''unexpected request'')
   \<and> fst (get_required_podcast_details_for_brand example_world_one_request ''vimergy.com'')
     = Inr (JString ''A weekly show about gut health'')
   \<and> responses_create example_world_api_error
      \<lparr>model = ''gpt-4o'', input = prompt ''vimergy.com'', temperature = 0\<rparr>
     = Inl (APIError ''rate limit exceeded'')
   \<and> fst (get_required_podcast_details_for_brand example_world_api_error ''vimergy.com'')
     = Inl (APIError ''rate limit exceeded'')
   \<and> fst (get_required_podcast_details_for_brand example_world ''vimergy.com'')
     = fst (get_required_podcast_details_for_brand example_world_one_request ''vimergy.com'')
   \<and> length (prompt ''vimergy.com'') = 2528\<close>
proof -
  note t1 = llm_request_fixed[of example_world_one_request "''vimergy.com''"
      "APIError ''unexpected request''"
      \<open>''{"podcast_details_string": "A weekly show about gut health"}''\<close> example_world
      "PStr ''p1''" example_hits]
  note t2 = llm_request_fixed[of example_world_api_error "''vimergy.com''"
      "APIError ''rate limit exceeded''" "[]" example_world_api_error "PStr ''p1''" example_hits]
  have w: \<open>responses_create example_world
             \<lparr>model = ''gpt-4o'', input = prompt ''vimergy.com'', temperature = 0\<rparr>
           = Inr ''{"podcast_details_string": "A weekly show about gut health"}''\<close>
    "recursion_limit example_world = 1000" "int_max_str_digits example_world = 4300"
    by (simp_all add: example_world_def)
  have a: "fst (get_required_podcast_details_for_brand example_world_one_request ''vimergy.com'')
     = Inr (JString ''A weekly show about gut health'')"
    using t1 by (simp add: ex_one_request ex_raw ex_loads)
  have b: "fst (get_required_podcast_details_for_brand example_world_api_error ''vimergy.com'')
     = Inl (APIError ''rate limit exceeded'')"
    using t2 by (simp add: ex_api_error)
  have c: "fst (get_required_podcast_details_for_brand example_world ''vimergy.com'')
     = fst (get_required_podcast_details_for_brand example_world_one_request ''vimergy.com'')"
    using t1 by (simp add: ex_one_request w)
  from t1 have "length (prompt ''vimergy.com'') = 2517 + length ''vimergy.com''"
    by (elim conjE)
  then have d: "length (prompt ''vimergy.com'') = 2528"
    by simp
  from ex_one_request(1) ex_one_request(2) ex_one_request(3) ex_one_request(4) a ex_api_error b c d
  show ?thesis by (intro conjI)
qed

text \<open>
  C3: for every \<open>brand_details\<close>, the prompt contains the category list of the source,
  from \<open>technology\<close> to \<open>tv&film\<close>, verbatim.
\<close>

theorem prompt_contains_category_list:
  "sublist category_list (prompt brand_details)"
  unfolding sublist_def using prompt_split[of brand_details] by blast

section \<open>Cleaning the response\<close>

lemma startswith_prefix: "startswith s p \<longleftrightarrow> prefix p s"
  by (induction s p rule: startswith.induct) auto

lemma replace_at_match:
  assumes "p \<noteq> []" "prefix p s"
  shows "replace s p [] = replace (drop (length p) s) p []"
proof (cases s)
  case Nil
  with assms show ?thesis by simp
next
  case (Cons c s')
  have "replace (c # s') p [] = [] @ replace (drop (length p) (c # s')) p []"
    using assms unfolding Cons
    by (simp only: replace.simps(2) startswith_prefix if_False if_True)
  then show ?thesis unfolding Cons by (simp only: append_Nil)
qed

lemma replace_no_match:
  assumes "p \<noteq> []" "\<not> prefix p (c # s)"
  shows "replace (c # s) p [] = c # replace s p []"
  using assms by (simp only: replace.simps(2) startswith_prefix if_False)

lemma replace_delete_hom:
  assumes ne: "p \<noteq> []"
    and border: "\<And>a b. p = a @ b \<Longrightarrow> a \<noteq> [] \<Longrightarrow> b \<noteq> [] \<Longrightarrow> \<not> prefix b (p @ v)"
  shows "replace (u @ p @ v) p [] = replace u p [] @ replace v p []"
proof (induction u rule: length_induct)
  case (1 u)
  show ?case
  proof (cases u)
    case Nil
    have "replace (p @ v) p [] = replace (drop (length p) (p @ v)) p []"
      by (rule replace_at_match[OF ne]) simp
    then show ?thesis using Nil ne by (simp del: replace.simps(2))
  next
    case (Cons c u')
    show ?thesis
    proof (cases "prefix p u")
      case True
      then obtain u2 where u2: "u = p @ u2" by (auto simp: prefix_def)
      have l: "length u2 < length u" using u2 ne by simp
      have "replace (u @ p @ v) p [] = replace (drop (length p) (u @ p @ v)) p []"
        by (rule replace_at_match[OF ne]) (simp add: u2)
      also have "\<dots> = replace (u2 @ p @ v) p []" by (simp add: u2 del: replace.simps)
      also have "\<dots> = replace u2 p [] @ replace v p []" using 1 l by blast
      also have "replace u2 p [] = replace u p []"
        using replace_at_match[OF ne True] by (simp add: u2 del: replace.simps)
      finally show ?thesis .
    next
      case False
      have nm: "\<not> prefix p (u @ p @ v)"
      proof
        assume pp: "prefix p (u @ p @ v)"
        then have "prefix p u \<or> (\<exists>us. p = u @ us \<and> prefix us (p @ v))"
          by (simp only: prefix_append)
        with False obtain us where us: "p = u @ us" "prefix us (p @ v)" by blast
        have n1: "us \<noteq> []"
        proof
          assume "us = []"
          with us(1) have "p = u" by simp
          with False show False by simp
        qed
        have n2: "u \<noteq> []" using Cons by simp
        from border[OF us(1) n2 n1] us(2) show False by contradiction
      qed
      have nm': "\<not> prefix p (c # (u' @ p @ v))" using nm unfolding Cons by simp
      have nu: "\<not> prefix p (c # u')" using False unfolding Cons .
      have lu: "length u' < length u" unfolding Cons by simp
      have ih: "replace (u' @ p @ v) p [] = replace u' p [] @ replace v p []"
        using 1 lu by blast
      have "replace (u @ p @ v) p [] = replace (c # (u' @ p @ v)) p []"
        unfolding Cons by (simp only: append_Cons)
      also have "\<dots> = c # replace (u' @ p @ v) p []"
        by (rule replace_no_match[OF ne nm'])
      also have "\<dots> = c # (replace u' p [] @ replace v p [])"
        by (simp only: ih)
      also have "\<dots> = (c # replace u' p []) @ replace v p []"
        by (simp only: append_Cons)
      also have "c # replace u' p [] = replace u p []"
        unfolding Cons by (rule replace_no_match[OF ne nu, symmetric])
      finally show ?thesis .
    qed
  qed
qed

lemma json_border:
  assumes "''json'' = a @ b" "a \<noteq> []" "b \<noteq> []"
  shows "\<not> prefix b (''json'' @ v)"
  using assms by (auto simp: Cons_eq_append_conv)

lemma json_nl_border:
  assumes "''json'' @ [CHR 0x0A] = a @ b" "a \<noteq> []" "b \<noteq> []"
  shows "\<not> prefix b ((''json'' @ [CHR 0x0A]) @ v)"
  using assms by (auto simp: Cons_eq_append_conv)

lemma replace_json_hom:
  "replace (u @ ''json'' @ v) ''json'' [] = replace u ''json'' [] @ replace v ''json'' []"
  by (rule replace_delete_hom) (simp, rule json_border)

lemma replace_json_nl_hom:
  "replace (u @ (''json'' @ [CHR 0x0A]) @ v) (''json'' @ [CHR 0x0A]) []
   = replace u (''json'' @ [CHR 0x0A]) [] @ replace v (''json'' @ [CHR 0x0A]) []"
  by (rule replace_delete_hom) (simp, rule json_nl_border)

lemma lstrip_chars_dropWhile: "lstrip_chars s cs = dropWhile (\<lambda>c. c \<in> set cs) s"
  by (induction s) simp_all

lemma strip_backticks:
  "strip_chars s ''`'' = rev (dropWhile (\<lambda>c. c = CHR ''`'') (rev (dropWhile (\<lambda>c. c = CHR ''`'') s)))"
  by (simp add: strip_chars_def lstrip_chars_dropWhile)

lemma ex_fenced_starts: "startswith (strip fenced_reply) ''```''"
  by code_simp

lemma ex_fenced_raw:
  \<open>raw_output fenced_reply = ''{"podcast_details_string": " tips"}'' @ [CHR 0x0A]\<close>
  by code_simp

lemma ex_lb_starts: "startswith (strip fenced_reply_line_break) ''```''"
  by code_simp

lemma ex_lb_raw:
  \<open>raw_output fenced_reply_line_break = ''{"podcast_details_string": "learn fast"}'' @ [CHR 0x0A]\<close>
  by code_simp

lemma ex_lb_claimed:
  \<open>raw_output_as_claimed fenced_reply_line_break =
     [CHR 0x0A] @ ''{"podcast_details_string": "learn '' @ [CHR 0x0A] @ ''fast"}'' @ [CHR 0x0A]\<close>
  by code_simp

lemma ex_lb_loads:
  \<open>json_loads 1000 4300 (raw_output fenced_reply_line_break) =
     Inr (JObject [(''podcast_details_string'', JString ''learn fast'')])\<close>
  by code_simp

lemma ex_lb_claimed_loads:
  \<open>json_loads 1000 4300 (raw_output_as_claimed fenced_reply_line_break) =
     Inl (JSONDecodeError ''Invalid control character at'')\<close>
  by code_simp

lemma ex_fenced_clean:
  \<open>replace (replace (strip_chars (strip fenced_reply) ''`'') (''json'' @ [CHR 0x0A]) []) ''json'' []
     = ''{"podcast_details_string": " tips"}'' @ [CHR 0x0A]\<close>
  by code_simp

lemma ex_reply_create:
  "responses_create (example_world_reply r) q = Inr r"
  "recursion_limit (example_world_reply r) = 1000"
  "int_max_str_digits (example_world_reply r) = 4300"
  by (simp_all add: example_world_reply_def example_world_def)

lemma ex_malformed: "json_loads 1000 4300 (raw_output ''Sorry, I cannot help.'') = Inl (JSONDecodeError ''Expecting value'')"
  by code_simp

lemma ex_array: "json_loads 1000 4300 (raw_output ''[1, 2]'') = Inr (JArray [JNumber ''1'', JNumber ''2''])"
  by code_simp

lemma ex_empty_object: "json_loads 1000 4300 (raw_output ''{}'') = Inr (JObject [])"
  by code_simp

lemma ex_empty_description:
  \<open>json_loads 1000 4300 (raw_output ''{"podcast_details_string": ""}'')
     = Inr (JObject [(''podcast_details_string'', JString '''')])\<close>
  by code_simp

lemma ex_fenced_loads:
  \<open>json_loads 1000 4300 (raw_output fenced_reply)
     = Inr (JObject [(''podcast_details_string'', JString '' tips'')])\<close>
  by code_simp

subsection \<open>An integer literal above the limit\<close>

text \<open>
  The decoder reads the first member of \<open>long_integer_reply n\<close> and refuses the integer
  of the second when it has more digits than the limit, whatever the number of digits.
\<close>

lemma lstrip_none: "find (\<lambda>p. p \<noteq> [] \<and> startswith s p) pats = None \<Longrightarrow> lstrip pats s = s"
  by (subst lstrip.simps) simp

lemma long_integer_strip: "strip (long_integer_reply n) = long_integer_reply n"
proof -
  have a: "lstrip whitespace (long_integer_reply n) = long_integer_reply n"
    by (rule lstrip_none) (simp add: long_integer_reply_def whitespace_def)
  have b: "lstrip (map rev whitespace) (rev (long_integer_reply n)) = rev (long_integer_reply n)"
    by (rule lstrip_none) (simp add: long_integer_reply_def whitespace_def)
  show ?thesis by (simp add: strip_def a b)
qed

lemma long_integer_raw: "raw_output (long_integer_reply n) = long_integer_reply n"
proof -
  have "\<not> startswith (long_integer_reply n) ''```''"
    by (simp add: long_integer_reply_def)
  then show ?thesis by (simp add: raw_output_def long_integer_strip Let_def del: startswith.simps)
qed

lemma digits_ones:
  "takeWhile is_digit (replicate k (CHR ''1'') @ ''}'') = replicate k (CHR ''1'')"
  "dropWhile is_digit (replicate k (CHR ''1'') @ ''}'') = ''}''"
  by (induction k) (simp_all add: is_digit_def)

lemma match_long_integer:
  assumes "640 < n" "0 < m" "m < n"
  shows "match_number m (replicate n (CHR ''1'') @ ''}'') =
         Inl (ValueError (''Exceeds the limit ('' @ str_of_nat m
             @ '' digits) for integer string conversion: value has '' @ str_of_nat n
             @ '' digits; use sys.set_int_max_str_digits() to increase the limit''))"
proof -
  from assms obtain k where n: "n = Suc k" by (cases n) auto
  show ?thesis
    using assms unfolding n
    by (simp add: match_number_def int_of_literal_def is_digit_def digits_ones frac_part_def
          exp_part_def Let_def)
qed




lemma long_integer_first_key:
  \<open>scanstring (''podcast_details_string": "a show", "n": '' @ X)
     = Inr (''podcast_details_string'', '': "a show", "n": '' @ X)\<close>
  by (simp add: emit_def)

lemma long_integer_first_value:
  \<open>scanstring (''a show", "n": '' @ X) = Inr (''a show'', '', "n": '' @ X)\<close>
  by (simp add: emit_def)

lemma long_integer_second_key:
  \<open>scanstring (''n": '' @ X) = Inr (''n'', '': '' @ X)\<close>
  by (simp add: emit_def)

lemma skip_ws_Cons:
  "skip_ws (CHR '' '' # s) = skip_ws s"
  "c \<noteq> CHR '' '' \<Longrightarrow> c \<noteq> CHR 0x09 \<Longrightarrow> c \<noteq> CHR 0x0A \<Longrightarrow> c \<noteq> CHR 0x0D
     \<Longrightarrow> skip_ws (c # s) = c # s"
  by (simp_all add: skip_ws_def json_ws_def)

lemma long_integer_second_member:
  assumes "match_number m (CHR ''1'' # X) = Inl e"
  shows \<open>parse_object (Suc (Suc f)) d m ps (''"n": '' @ CHR ''1'' # X) = Inl e\<close>
proof -
  have v: "scan_once (Suc f) d m (CHR ''1'' # X) = Inl e"
    using assms by (simp del: match_number_def)
  have k: \<open>scanstring (tl (''"n": '' @ CHR ''1'' # X)) = Inr (''n'', '': '' @ CHR ''1'' # X)\<close>
    using long_integer_second_key[of "CHR ''1'' # X"] by simp
  show ?thesis
    apply (subst parse_object.simps)
    apply (simp only: k)
    apply (simp add: skip_ws_Cons v del: scan_once.simps parse_object.simps scanstring.simps)
    done
qed


lemma long_integer_first_member:
  assumes "match_number m (CHR ''1'' # X) = Inl e"
  shows \<open>parse_object (Suc (Suc (Suc f))) d m []
           (''"podcast_details_string": "a show", "n": '' @ CHR ''1'' # X) = Inl e\<close>
proof -
  have k: \<open>scanstring (tl (''"podcast_details_string": "a show", "n": '' @ CHR ''1'' # X))
           = Inr (''podcast_details_string'', '': "a show", "n": '' @ CHR ''1'' # X)\<close>
    using long_integer_first_key[of "CHR ''1'' # X"] by simp
  have v: \<open>scan_once (Suc (Suc f)) d m (''"a show", "n": '' @ CHR ''1'' # X)
           = Inr (JString ''a show'', '', "n": '' @ CHR ''1'' # X)\<close>
    apply (subst scan_once.simps)
    using long_integer_first_value[of "CHR ''1'' # X"]
    apply (simp del: scan_once.simps parse_object.simps scanstring.simps)
    done
  have n: \<open>parse_object (Suc (Suc f)) d m [(''podcast_details_string'', JString ''a show'')]
             (''"n": '' @ CHR ''1'' # X) = Inl e\<close>
    by (rule long_integer_second_member[OF assms])
  show ?thesis
    apply (subst parse_object.simps)
    apply (simp only: k)
    using v n
    apply (simp add: skip_ws_Cons del: scan_once.simps parse_object.simps scanstring.simps)
    done
qed

lemma long_integer_object:
  assumes "match_number m (CHR ''1'' # X) = Inl e"
  shows \<open>scan_once (Suc (Suc (Suc (Suc f)))) (Suc d) m
           (''{"podcast_details_string": "a show", "n": '' @ CHR ''1'' # X) = Inl e\<close>
  apply (subst scan_once.simps)
  using long_integer_first_member[OF assms, of f d]
  apply (simp add: skip_ws_Cons del: scan_once.simps parse_object.simps scanstring.simps)
  done


lemma loads_long_integer:
  assumes "640 < n" "0 < m" "m < n"
  shows "json_loads (Suc d) m (long_integer_reply n) =
         Inl (ValueError (''Exceeds the limit ('' @ str_of_nat m
             @ '' digits) for integer string conversion: value has '' @ str_of_nat n
             @ '' digits; use sys.set_int_max_str_digits() to increase the limit''))"
proof -
  from assms obtain k where n: "n = Suc k" by (cases n) auto
  define X where "X = replicate k (CHR ''1'') @ ''}''"
  have r: \<open>long_integer_reply n = ''{"podcast_details_string": "a show", "n": '' @ CHR ''1'' # X\<close>
    by (simp add: long_integer_reply_def n X_def)
  have mn: "match_number m (CHR ''1'' # X) =
         Inl (ValueError (''Exceeds the limit ('' @ str_of_nat m
             @ '' digits) for integer string conversion: value has '' @ str_of_nat n
             @ '' digits; use sys.set_int_max_str_digits() to increase the limit''))"
    using match_long_integer[OF assms] by (simp add: n X_def)
  have "0 < length (long_integer_reply n)" by (simp add: r)
  then have "2 * length (long_integer_reply n) + 2
               = Suc (Suc (Suc (Suc (2 * (length (long_integer_reply n) - 1)))))"
    by arith
  then obtain f where f: "2 * length (long_integer_reply n) + 2 = Suc (Suc (Suc (Suc f)))"
    by (rule that)
  have s: "skip_ws (long_integer_reply n) = long_integer_reply n"
    by (simp add: r skip_ws_Cons)
  have b: "\<not> startswith (long_integer_reply n) [CHR 0xEF, CHR 0xBB, CHR 0xBF]"
    by (simp add: r)
  have t: "scan_once (Suc (Suc (Suc (Suc f)))) (Suc d) m (long_integer_reply n) =
         Inl (ValueError (''Exceeds the limit ('' @ str_of_nat m
             @ '' digits) for integer string conversion: value has '' @ str_of_nat n
             @ '' digits; use sys.set_int_max_str_digits() to increase the limit''))"
    unfolding r by (rule long_integer_object[OF mn])
  show ?thesis
    unfolding json_loads_def f s
    using b by (simp only: t if_False bind_exn_simps)
qed

lemma ex_long_integer_loads:
  "json_loads 1000 4300 (raw_output (long_integer_reply 4301)) =
     Inl (ValueError (''Exceeds the limit (4300 digits) for integer string conversion: ''
            @ ''value has 4301 digits; use sys.set_int_max_str_digits() to increase the limit''))"
proof -
  have d: "digit_char 0 = CHR ''0''" "digit_char (Suc 0) = CHR ''1''" "digit_char 3 = CHR ''3''"
    "digit_char 4 = CHR ''4''"
    by code_simp+
  have a: "str_of_nat 4300 = ''4300''" "str_of_nat 4301 = ''4301''"
    by (simp_all add: str_of_nat.simps d)
  have "json_loads (Suc 999) 4300 (long_integer_reply 4301) =
     Inl (ValueError (''Exceeds the limit ('' @ str_of_nat 4300
             @ '' digits) for integer string conversion: value has '' @ str_of_nat 4301
             @ '' digits; use sys.set_int_max_str_digits() to increase the limit''))"
    by (rule loads_long_integer) simp_all
  then show ?thesis by (simp add: a long_integer_raw)
qed

section \<open>The claims about the response\<close>

text \<open>
  C8, as amended: when the stripped output starts with three backticks, all its leading
  and trailing backticks are removed, then every occurrence of \<open>json\<close> followed by a line
  break is deleted together with the line break, then every occurrence of \<open>json\<close> left;
  an occurrence is deleted wherever it stands in the text, inside the payload as well
  as in the tag of the fence.
\<close>

theorem fence_cleanup:
  "(startswith (strip output_text) ''```''
      \<longrightarrow> raw_output output_text =
            replace (replace (strip_chars (strip output_text) ''`'') (''json'' @ [CHR 0x0A]) [])
              ''json'' [])
   \<and> strip_chars s ''`''
       = rev (dropWhile (\<lambda>c. c = CHR ''`'') (rev (dropWhile (\<lambda>c. c = CHR ''`'') s)))
   \<and> replace (u @ (''json'' @ [CHR 0x0A]) @ v) (''json'' @ [CHR 0x0A]) []
       = replace u (''json'' @ [CHR 0x0A]) [] @ replace v (''json'' @ [CHR 0x0A]) []
   \<and> replace (u @ ''json'' @ v) ''json'' []
       = replace u ''json'' [] @ replace v ''json'' []"
proof (intro conjI impI)
  assume "startswith (strip output_text) ''```''"
  then show "raw_output output_text =
            replace (replace (strip_chars (strip output_text) ''`'') (''json'' @ [CHR 0x0A]) [])
              ''json'' []"
    by (simp add: raw_output_def Let_def del: replace.simps startswith.simps)
next
  show "strip_chars s ''`''
       = rev (dropWhile (\<lambda>c. c = CHR ''`'') (rev (dropWhile (\<lambda>c. c = CHR ''`'') s)))"
    by (rule strip_backticks)
next
  show "replace (u @ (''json'' @ [CHR 0x0A]) @ v) (''json'' @ [CHR 0x0A]) []
       = replace u (''json'' @ [CHR 0x0A]) [] @ replace v (''json'' @ [CHR 0x0A]) []"
    by (rule replace_json_nl_hom)
next
  show "replace (u @ ''json'' @ v) ''json'' []
       = replace u ''json'' [] @ replace v ''json'' []"
    by (rule replace_json_hom)
qed

theorem fence_cleanup_witness:
  \<open>startswith (strip fenced_reply) ''```''
   \<and> raw_output fenced_reply = ''{"podcast_details_string": " tips"}'' @ [CHR 0x0A]\<close>
proof -
  have a: "startswith (strip fenced_reply) ''```''" by (rule ex_fenced_starts)
  from fence_cleanup[of fenced_reply "[]" "[]" "[]"] a
  have "raw_output fenced_reply =
            replace (replace (strip_chars (strip fenced_reply) ''`'') (''json'' @ [CHR 0x0A]) [])
              ''json'' []"
    by blast
  with a show ?thesis by (simp only: ex_fenced_clean simp_thms)
qed

text \<open>
  C8 as stated fails: deleting only \<open>json\<close> keeps the line break after it. On this
  answer the code hands valid JSON to the decoder, the cleaning the claim describes a
  text with a raw line break inside a string, which the decoder refuses.
\<close>

theorem fence_cleanup_counterexample:
  \<open>startswith (strip fenced_reply_line_break) ''```''
   \<and> raw_output fenced_reply_line_break
       = ''{"podcast_details_string": "learn fast"}'' @ [CHR 0x0A]
   \<and> raw_output_as_claimed fenced_reply_line_break
       = [CHR 0x0A] @ ''{"podcast_details_string": "learn '' @ [CHR 0x0A] @ ''fast"}'' @ [CHR 0x0A]
   \<and> raw_output fenced_reply_line_break \<noteq> raw_output_as_claimed fenced_reply_line_break
   \<and> json_loads 1000 4300 (raw_output fenced_reply_line_break)
       = Inr (JObject [(''podcast_details_string'', JString ''learn fast'')])
   \<and> json_loads 1000 4300 (raw_output_as_claimed fenced_reply_line_break)
       = Inl (JSONDecodeError ''Invalid control character at'')\<close>
proof -
  have "raw_output fenced_reply_line_break \<noteq> raw_output_as_claimed fenced_reply_line_break"
    unfolding ex_lb_raw ex_lb_claimed by simp
  then show ?thesis
    using ex_lb_starts ex_lb_raw ex_lb_claimed ex_lb_loads ex_lb_claimed_loads
    by (intro conjI)
qed

text \<open>
  C1, as amended: when the cleaned response cannot be decoded, the function returns the
  empty string; \<open>json.loads\<close> raises for malformed JSON, for an integer literal with more
  digits than the interpreter converts, and for nesting deeper than the interpreter
  allows. When the response is decoded, the function returns the value of the key
  \<open>podcast_details_string\<close> if the decoded value is an object with that key (the last
  one, if repeated), whatever that value is, and the empty string in every other case.
\<close>

theorem description_from_json:
  "(responses_create w \<lparr>model = ''gpt-4o'', input = prompt bd, temperature = 0\<rparr> = Inr t
      \<and> json_loads (recursion_limit w) (int_max_str_digits w) (raw_output t) = Inl e
     \<longrightarrow> fst (get_required_podcast_details_for_brand w bd) = Inr (JString ''''))
   \<and> (responses_create w1 \<lparr>model = ''gpt-4o'', input = prompt bd1, temperature = 0\<rparr> = Inr t1
      \<and> json_loads (recursion_limit w1) (int_max_str_digits w1) (raw_output t1) = Inr (JObject pairs)
      \<and> map_of (rev pairs) ''podcast_details_string'' = Some v
     \<longrightarrow> fst (get_required_podcast_details_for_brand w1 bd1) = Inr v)
   \<and> (responses_create w2 \<lparr>model = ''gpt-4o'', input = prompt bd2, temperature = 0\<rparr> = Inr t2
      \<and> json_loads (recursion_limit w2) (int_max_str_digits w2) (raw_output t2) = Inr j
      \<and> (case j of
            JObject members \<Rightarrow> map_of (rev members) ''podcast_details_string'' = None
          | _ \<Rightarrow> True)
     \<longrightarrow> fst (get_required_podcast_details_for_brand w2 bd2) = Inr (JString ''''))"
proof (intro conjI impI)
  assume "responses_create w \<lparr>model = ''gpt-4o'', input = prompt bd, temperature = 0\<rparr> = Inr t
      \<and> json_loads (recursion_limit w) (int_max_str_digits w) (raw_output t) = Inl e"
  then show "fst (get_required_podcast_details_for_brand w bd) = Inr (JString '''')"
    using required_result[of w bd t] by simp
next
  assume "responses_create w1 \<lparr>model = ''gpt-4o'', input = prompt bd1, temperature = 0\<rparr> = Inr t1
      \<and> json_loads (recursion_limit w1) (int_max_str_digits w1) (raw_output t1) = Inr (JObject pairs)
      \<and> map_of (rev pairs) ''podcast_details_string'' = Some v"
  then show "fst (get_required_podcast_details_for_brand w1 bd1) = Inr v"
    using required_result[of w1 bd1 t1] by simp
next
  assume a: "responses_create w2 \<lparr>model = ''gpt-4o'', input = prompt bd2, temperature = 0\<rparr> = Inr t2
      \<and> json_loads (recursion_limit w2) (int_max_str_digits w2) (raw_output t2) = Inr j
      \<and> (case j of
            JObject members \<Rightarrow> map_of (rev members) ''podcast_details_string'' = None
          | _ \<Rightarrow> True)"
  then have "\<exists>e. json_getitem j ''podcast_details_string'' = Inl e"
    by (cases j) simp_all
  with a show "fst (get_required_podcast_details_for_brand w2 bd2) = Inr (JString '''')"
    using required_result[of w2 bd2 t2] by auto
qed

theorem description_from_json_witness:
  "responses_create (example_world_reply ''Sorry, I cannot help.'')
      \<lparr>model = ''gpt-4o'', input = prompt ''vimergy.com'', temperature = 0\<rparr>
      = Inr ''Sorry, I cannot help.''
   \<and> json_loads 1000 4300 (raw_output ''Sorry, I cannot help.'') = Inl (JSONDecodeError ''Expecting value'')
   \<and> fst (get_required_podcast_details_for_brand (example_world_reply ''Sorry, I cannot help.'')
            ''vimergy.com'') = Inr (JString '''')
   \<and> json_loads 1000 4300 (raw_output (long_integer_reply 4301))
       = Inl (ValueError (''Exceeds the limit (4300 digits) for integer string conversion: ''
                @ ''value has 4301 digits; use sys.set_int_max_str_digits() to increase the limit''))
   \<and> fst (get_required_podcast_details_for_brand (example_world_reply (long_integer_reply 4301))
            ''vimergy.com'') = Inr (JString '''')
   \<and> json_loads 1000 4300 (raw_output fenced_reply)
       = Inr (JObject [(''podcast_details_string'', JString '' tips'')])
   \<and> fst (get_required_podcast_details_for_brand (example_world_reply fenced_reply)
            ''vimergy.com'') = Inr (JString '' tips'')
   \<and> json_loads 1000 4300 (raw_output ''[1, 2]'') = Inr (JArray [JNumber ''1'', JNumber ''2''])
   \<and> fst (get_required_podcast_details_for_brand (example_world_reply ''[1, 2]'')
            ''vimergy.com'') = Inr (JString '''')"
proof -
  have a: "fst (get_required_podcast_details_for_brand (example_world_reply ''Sorry, I cannot help.'')
            ''vimergy.com'') = Inr (JString '''')"
    "fst (get_required_podcast_details_for_brand (example_world_reply fenced_reply)
            ''vimergy.com'') = Inr (JString '' tips'')"
    "fst (get_required_podcast_details_for_brand (example_world_reply ''[1, 2]'')
            ''vimergy.com'') = Inr (JString '''')"
    using description_from_json[of "example_world_reply ''Sorry, I cannot help.''" "''vimergy.com''"
      "''Sorry, I cannot help.''" "JSONDecodeError ''Expecting value''"
      "example_world_reply fenced_reply" "''vimergy.com''" fenced_reply
      "[(''podcast_details_string'', JString '' tips'')]" "JString '' tips''"
      "example_world_reply ''[1, 2]''" "''vimergy.com''" "''[1, 2]''"
      "JArray [JNumber ''1'', JNumber ''2'']"]
    by (simp_all add: ex_reply_create ex_malformed ex_array ex_fenced_loads)
  have b: "fst (get_required_podcast_details_for_brand (example_world_reply (long_integer_reply 4301))
            ''vimergy.com'') = Inr (JString '''')"
    using description_from_json[of "example_world_reply (long_integer_reply 4301)" "''vimergy.com''"
      "long_integer_reply 4301"
      "ValueError (''Exceeds the limit (4300 digits) for integer string conversion: ''
                @ ''value has 4301 digits; use sys.set_int_max_str_digits() to increase the limit'')"
      "example_world_reply fenced_reply" "''vimergy.com''" fenced_reply
      "[(''podcast_details_string'', JString '' tips'')]" "JString '' tips''"
      "example_world_reply ''[1, 2]''" "''vimergy.com''" "''[1, 2]''"
      "JArray [JNumber ''1'', JNumber ''2'']"]
      ex_long_integer_loads
    by (simp add: ex_reply_create)
  from ex_reply_create(1) ex_malformed a(1) ex_long_integer_loads b ex_fenced_loads a(2) ex_array a(3)
  show ?thesis by (intro conjI)
qed

text \<open>
  C1 as stated fails: \<open>{}\<close> is valid JSON and the function returns the empty string;
  so it does when the key is there and its value is the empty string.
\<close>

theorem description_from_json_counterexample:
  \<open>json_loads 1000 4300 (raw_output ''{}'') = Inr (JObject [])
   \<and> fst (get_required_podcast_details_for_brand (example_world_reply ''{}'') ''vimergy.com'')
       = Inr (JString '''')
   \<and> json_loads 1000 4300 (raw_output ''{"podcast_details_string": ""}'')
       = Inr (JObject [(''podcast_details_string'', JString '''')])
   \<and> fst (get_required_podcast_details_for_brand
            (example_world_reply ''{"podcast_details_string": ""}'') ''vimergy.com'')
       = Inr (JString '''')\<close>
  by (simp add: required_result[OF ex_reply_create(1)] ex_reply_create(2) ex_reply_create(3)
        ex_empty_object ex_empty_description)

end
